theory Spec2Isabelle
  imports Main "HOL-Library.Word"
begin

section \<open>JavaScript values\<close>

text \<open>
  The values that flow through the hooks of \<^verbatim>\<open>src/index.tsx\<close>: producer arguments,
  producer results and cached entries.

  An array or an object carries its identity, the reference that \<^verbatim>\<open>===\<close> compares: two
  objects built alike are two values. An object is its identity and the list of its own
  enumerable properties in enumeration order (the order \<^verbatim>\<open>JSON.stringify\<close> visits them
  in); a well-formed object names every property once.

  \<open>JNum n\<close> is the number \<open>sint n\<close>: the integers from \<open>-2^53\<close> to \<open>2^53 - 1\<close>, each of which
  a double holds exactly and JavaScript writes in plain decimal. \<open>JNaN\<close> and the two
  infinities are the numbers that are not finite. Numbers with a fractional part or of a
  larger magnitude are not among the values. Strings are lists of 8-bit characters.
\<close>

datatype jsval =
    JUndefined
  | JNull
  | JBool bool
  | JNum "54 word"
  | JNaN
  | JInfinity
  | JNegInfinity
  | JStr string
  | JArr nat "jsval list"
  | JObj nat "(string \<times> jsval) list"

text \<open>An \<^verbatim>\<open>Error\<close> instance: its \<^verbatim>\<open>name\<close> and its \<^verbatim>\<open>message\<close>.\<close>

datatype js_error = JsError (err_name: string) (err_message: string)

text \<open>
  What a \<^verbatim>\<open>throw\<close> or a rejected promise carries: any value at all. \<^verbatim>\<open>e instanceof Error\<close>
  holds exactly for \<open>ErrorValue\<close>.
\<close>

datatype thrown = ErrorValue js_error | OtherValue jsval

fun instanceof_Error :: "thrown \<Rightarrow> bool" where
  "instanceof_Error (ErrorValue _) = True"
| "instanceof_Error (OtherValue _) = False"

text \<open>\<^verbatim>\<open>new Error(msg)\<close>.\<close>

definition new_Error :: "string \<Rightarrow> js_error" where
  "new_Error msg = JsError ''Error'' msg"

text \<open>
  The normalisation every \<^verbatim>\<open>catch\<close> block of the file performs:
  \<^verbatim>\<open>e instanceof Error ? e : new Error("An unexpected error occured :(")\<close>.
\<close>

fun normalize_error :: "thrown \<Rightarrow> js_error" where
  "normalize_error (ErrorValue e) = e"
| "normalize_error (OtherValue _) = new_Error ''An unexpected error occured :(''"

section \<open>JSON.stringify\<close>

definition hex_digit :: "nat \<Rightarrow> char" where
  "hex_digit n = ''0123456789abcdef'' ! (n mod 16)"

text \<open>QuoteJSONString, one character at a time.\<close>

definition json_escape :: "char \<Rightarrow> string" where
  "json_escape c =
     (if c = CHR 0x08 then [CHR 0x5C, CHR ''b'']
      else if c = CHR 0x09 then [CHR 0x5C, CHR ''t'']
      else if c = CHR 0x0A then [CHR 0x5C, CHR ''n'']
      else if c = CHR 0x0C then [CHR 0x5C, CHR ''f'']
      else if c = CHR 0x0D then [CHR 0x5C, CHR ''r'']
      else if c = CHR 0x22 then [CHR 0x5C, CHR 0x22]
      else if c = CHR 0x5C then [CHR 0x5C, CHR 0x5C]
      else if of_char c < (32::nat)
        then [CHR 0x5C, CHR ''u'', CHR ''0'', CHR ''0'',
              hex_digit (of_char c div 16), hex_digit (of_char c)]
      else [c])"

definition json_quote :: "string \<Rightarrow> string" where
  "json_quote s = [CHR 0x22] @ concat (map json_escape s) @ [CHR 0x22]"

fun show_nat :: "nat \<Rightarrow> string" where
  "show_nat n =
     (if n < 10 then [''0123456789'' ! n]
      else show_nat (n div 10) @ [''0123456789'' ! (n mod 10)])"

definition show_int :: "int \<Rightarrow> string" where
  "show_int i = (if i < 0 then CHR ''-'' # show_nat (nat (- i)) else show_nat (nat i))"

fun join :: "string \<Rightarrow> string list \<Rightarrow> string" where
  "join sep [] = []"
| "join sep [x] = x"
| "join sep (x # y # ys) = x @ sep @ join sep (y # ys)"

text \<open>
  \<^verbatim>\<open>JSON.stringify(v)\<close>: \<open>None\<close> is the result \<^verbatim>\<open>undefined\<close>. A number that is not finite
  is written \<^verbatim>\<open>null\<close>. An array element that serialises to \<^verbatim>\<open>undefined\<close> is written
  \<^verbatim>\<open>null\<close>; an object property that does is left out. Properties are written in
  enumeration order. The identity of an array or object is never looked at.
\<close>

fun JSON_stringify :: "jsval \<Rightarrow> string option"
  and stringify_elems :: "jsval list \<Rightarrow> string list"
  and stringify_props :: "(string \<times> jsval) list \<Rightarrow> string list" where
  "JSON_stringify JUndefined = None"
| "JSON_stringify JNull = Some ''null''"
| "JSON_stringify (JBool b) = Some (if b then ''true'' else ''false'')"
| "JSON_stringify (JNum n) = Some (show_int (sint n))"
| "JSON_stringify JNaN = Some ''null''"
| "JSON_stringify JInfinity = Some ''null''"
| "JSON_stringify JNegInfinity = Some ''null''"
| "JSON_stringify (JStr s) = Some (json_quote s)"
| "JSON_stringify (JArr r xs) = Some (''['' @ join '','' (stringify_elems xs) @ '']'')"
| "JSON_stringify (JObj r ps) = Some (''{'' @ join '','' (stringify_props ps) @ ''}'')"
| "stringify_elems [] = []"
| "stringify_elems (x # xs) =
     (case JSON_stringify x of None \<Rightarrow> ''null'' | Some s \<Rightarrow> s) # stringify_elems xs"
| "stringify_props [] = []"
| "stringify_props ((k, v) # ps) =
     (case JSON_stringify v of
        None \<Rightarrow> stringify_props ps
      | Some s \<Rightarrow> (json_quote k @ '':'' @ s) # stringify_props ps)"

text \<open>\<^verbatim>\<open>JSON.stringify\<close> of an array, given its elements.\<close>

definition stringify_array :: "jsval list \<Rightarrow> string" where
  "stringify_array xs = ''['' @ join '','' (stringify_elems xs) @ '']''"

section \<open>Cache keys\<close>

text \<open>
  A producer (\<^verbatim>\<open>QueryFn\<close>): the function object's identity, its \<^verbatim>\<open>name\<close>, the text
  \<^verbatim>\<open>toString()\<close> gives, and what a call with given arguments does.
\<close>

datatype settlement = Fulfilled jsval | Rejected thrown

text \<open>
  The result of calling a producer: it returns a value that is not a promise, it throws,
  or it returns a promise with the settlement that promise will have.
\<close>

datatype outcome = Returned jsval | Threw thrown | Promise settlement

record producer =
  fn_ref :: nat
  fn_name :: string
  fn_toString :: string
  fn_call :: "jsval list \<Rightarrow> outcome"

text \<open>A template literal writes \<^verbatim>\<open>undefined\<close> as the word.\<close>

definition template_string :: "string option \<Rightarrow> string" where
  "template_string s = (case s of None \<Rightarrow> ''undefined'' | Some t \<Rightarrow> t)"

text \<open>
  \<^verbatim>\<open>generateCacheKey(fn, args)\<close>, with \<open>None\<close> for \<^verbatim>\<open>args === undefined\<close>, of which
  \<^verbatim>\<open>JSON.stringify\<close> is \<^verbatim>\<open>undefined\<close>; otherwise \<open>args\<close> is an array, given by its elements.
\<close>

definition generateCacheKey :: "producer \<Rightarrow> jsval list option \<Rightarrow> string" where
  "generateCacheKey f args =
     (let fnIdentifier = (if fn_name f \<noteq> [] then fn_name f else fn_toString f);
          argsString = (case args of None \<Rightarrow> None | Some a \<Rightarrow> Some (stringify_array a))
      in fnIdentifier @ ''-'' @ template_string argsString)"

section \<open>Hook state\<close>

text \<open>
  Options of \<^verbatim>\<open>useQuery\<close> and \<^verbatim>\<open>useSuspenseQuery\<close> (\<^verbatim>\<open>QueryOptions\<close>); \<open>None\<close> is a
  field left \<^verbatim>\<open>undefined\<close>. \<^verbatim>\<open>MutationOptions\<close> adds \<^verbatim>\<open>onSuccess\<close> and has no
  \<^verbatim>\<open>callerArgs\<close> (\<^verbatim>\<open>mutate\<close> never reads it). The callback may do what it likes with the
  shared cache, and may throw.
\<close>

record options =
  fn :: producer
  callerArgs :: "jsval list option"
  useCache :: "bool option"
  customQueryKey :: "string option"

record mutation_options = options +
  onSuccess :: "(jsval \<Rightarrow> (string \<rightharpoonup> jsval) \<Rightarrow> thrown + (string \<rightharpoonup> jsval)) option"

text \<open>
  The two \<^verbatim>\<open>useState\<close> triples of the file: \<open>Hook\<close> is the \<^verbatim>\<open>data\<close>/\<^verbatim>\<open>loading\<close>/\<^verbatim>\<open>error\<close>
  of \<^verbatim>\<open>useQuery\<close>, \<^verbatim>\<open>useMutation\<close> or \<^verbatim>\<open>useSuspenseQuery\<close>; \<open>Async\<close> is that of
  \<^verbatim>\<open>useAsync\<close>.
\<close>

datatype cell = Hook | Async

datatype publication = SetData jsval | SetLoading bool | SetError "js_error option"

text \<open>
  What happens to the component while an execution awaits its producer: the effect's
  cleanup runs (\<^verbatim>\<open>isMounted.current = false\<close>), or the effect of \<^verbatim>\<open>useQuery\<close> or
  \<^verbatim>\<open>useSuspenseQuery\<close> runs again (\<^verbatim>\<open>isMounted.current = true\<close>; \<^verbatim>\<open>useMutation\<close> never sets
  the flag back).
\<close>

datatype lifecycle = Detach | Attach

datatype event =
    Publish cell publication
  | Invoke nat "jsval list"
  | CacheSet string jsval
  | OnSuccess jsval
  | Lifecycle lifecycle

text \<open>
  The module's \<^verbatim>\<open>cache\<close> map, one component's hook state, and the timeline of what
  was done: every state setter call, producer call, cache write and lifecycle event, in
  order.
\<close>

record world =
  cache :: "string \<rightharpoonup> jsval"
  data :: jsval
  loading :: bool
  error :: "js_error option"
  isMounted :: bool
  a_data :: jsval
  a_loading :: bool
  a_error :: "js_error option"
  trace :: "event list"

text \<open>\<^verbatim>\<open>useState()\<close>, \<^verbatim>\<open>useState(false)\<close>, \<^verbatim>\<open>useRef(true)\<close>, over a given cache.\<close>

definition mount :: "(string \<rightharpoonup> jsval) \<Rightarrow> world" where
  "mount c = \<lparr>cache = c, data = JUndefined, loading = False, error = None, isMounted = True,
     a_data = JUndefined, a_loading = False, a_error = None, trace = []\<rparr>"

definition record_event :: "event \<Rightarrow> world \<Rightarrow> world" where
  "record_event e w = w\<lparr>trace := trace w @ [e]\<rparr>"

definition setData :: "jsval \<Rightarrow> world \<Rightarrow> world" where
  "setData v w = record_event (Publish Hook (SetData v)) (w\<lparr>data := v\<rparr>)"

definition setLoading :: "bool \<Rightarrow> world \<Rightarrow> world" where
  "setLoading b w = record_event (Publish Hook (SetLoading b)) (w\<lparr>loading := b\<rparr>)"

definition setError :: "js_error option \<Rightarrow> world \<Rightarrow> world" where
  "setError e w = record_event (Publish Hook (SetError e)) (w\<lparr>error := e\<rparr>)"

definition a_setData :: "jsval \<Rightarrow> world \<Rightarrow> world" where
  "a_setData v w = record_event (Publish Async (SetData v)) (w\<lparr>a_data := v\<rparr>)"

definition a_setLoading :: "bool \<Rightarrow> world \<Rightarrow> world" where
  "a_setLoading b w = record_event (Publish Async (SetLoading b)) (w\<lparr>a_loading := b\<rparr>)"

definition a_setError :: "js_error option \<Rightarrow> world \<Rightarrow> world" where
  "a_setError e w = record_event (Publish Async (SetError e)) (w\<lparr>a_error := e\<rparr>)"

text \<open>\<^verbatim>\<open>cache.has\<close>, \<^verbatim>\<open>cache.get\<close> (\<^verbatim>\<open>undefined\<close> for a missing key), \<^verbatim>\<open>cache.set\<close>.\<close>

definition cache_has :: "string \<Rightarrow> world \<Rightarrow> bool" where
  "cache_has k w = (cache w k \<noteq> None)"

definition cache_get :: "string \<Rightarrow> world \<Rightarrow> jsval" where
  "cache_get k w = (case cache w k of None \<Rightarrow> JUndefined | Some v \<Rightarrow> v)"

definition cache_set :: "string \<Rightarrow> jsval \<Rightarrow> world \<Rightarrow> world" where
  "cache_set k v w = record_event (CacheSet k v) (w\<lparr>cache := (cache w)(k \<mapsto> v)\<rparr>)"

fun lifecycle_step :: "lifecycle \<Rightarrow> world \<Rightarrow> world" where
  "lifecycle_step Detach w = record_event (Lifecycle Detach) (w\<lparr>isMounted := False\<rparr>)"
| "lifecycle_step Attach w = record_event (Lifecycle Attach) (w\<lparr>isMounted := True\<rparr>)"

text \<open>The lifecycle events that fall between a producer call and its settlement.\<close>

fun during_await :: "lifecycle list \<Rightarrow> world \<Rightarrow> world" where
  "during_await [] w = w"
| "during_await (a # as) w = during_await as (lifecycle_step a w)"

text \<open>
  \<^verbatim>\<open>fn(...args)\<close>: the call is put on the timeline; what it gives is \<open>fn_call\<close>.
\<close>

definition invoke :: "producer \<Rightarrow> jsval list \<Rightarrow> world \<Rightarrow> world" where
  "invoke f args w = record_event (Invoke (fn_ref f) args) w"

text \<open>
  What a producer call comes to once it is settled, and the two ways the file waits for it.
  \<^verbatim>\<open>res instanceof Promise ? await res : res\<close> suspends on a promise only;
  \<^verbatim>\<open>await fn(...args)\<close> suspends on whatever the call returns. A call that throws is in the
  \<^verbatim>\<open>catch\<close> at once. While a body is suspended, the lifecycle events take place.
\<close>

fun resolution :: "outcome \<Rightarrow> settlement" where
  "resolution (Returned v) = Fulfilled v"
| "resolution (Threw e) = Rejected e"
| "resolution (Promise s) = s"

fun await_if_promise :: "outcome \<Rightarrow> lifecycle list \<Rightarrow> world \<Rightarrow> world" where
  "await_if_promise (Promise s) acts w = during_await acts w"
| "await_if_promise (Returned v) acts w = w"
| "await_if_promise (Threw e) acts w = w"

fun await_call :: "outcome \<Rightarrow> lifecycle list \<Rightarrow> world \<Rightarrow> world" where
  "await_call (Promise s) acts w = during_await acts w"
| "await_call (Returned v) acts w = during_await acts w"
| "await_call (Threw e) acts w = w"

section \<open>useQuery\<close>

definition useCacheOption :: "'a options_scheme \<Rightarrow> bool" where
  "useCacheOption opts = (case useCache opts of None \<Rightarrow> True | Some b \<Rightarrow> b)"

definition currentCallerArgs :: "'a options_scheme \<Rightarrow> jsval list" where
  "currentCallerArgs opts = (case callerArgs opts of None \<Rightarrow> [] | Some a \<Rightarrow> a)"

definition cacheKey :: "'a options_scheme \<Rightarrow> string" where
  "cacheKey opts =
     (case customQueryKey opts of
        Some k \<Rightarrow> k
      | None \<Rightarrow> generateCacheKey (fn opts) (Some (currentCallerArgs opts)))"

text \<open>
  The guarded blocks that \<^verbatim>\<open>runQuery\<close>, \<^verbatim>\<open>mutate\<close> and the suspense body share: the
  \<^verbatim>\<open>catch\<close>, the \<^verbatim>\<open>finally\<close>, and the write \<^verbatim>\<open>if (useCacheOption) cache.set(...)\<close>.
\<close>

definition catch_block :: "thrown \<Rightarrow> world \<Rightarrow> world" where
  "catch_block e w = (if isMounted w then setError (Some (normalize_error e)) w else w)"

definition finally_block :: "world \<Rightarrow> world" where
  "finally_block w = (if isMounted w then setLoading False w else w)"

definition cache_write :: "'a options_scheme \<Rightarrow> string \<Rightarrow> jsval \<Rightarrow> world \<Rightarrow> world" where
  "cache_write opts k returnData w =
     (if useCacheOption opts then cache_set k returnData w else w)"

text \<open>
  \<^verbatim>\<open>runQuery\<close> from the point where the producer's result is known: the rest of the
  \<^verbatim>\<open>try\<close>, or the \<^verbatim>\<open>catch\<close>, then the \<^verbatim>\<open>finally\<close>.
\<close>

definition runQuery_settle :: "'a options_scheme \<Rightarrow> settlement \<Rightarrow> world \<Rightarrow> world" where
  "runQuery_settle opts s w =
     finally_block
       (case s of
          Fulfilled returnData \<Rightarrow>
            (if isMounted w
             then cache_write opts (cacheKey opts) returnData (setData returnData w)
             else w)
        | Rejected e \<Rightarrow> catch_block e w)"

text \<open>
  One execution of \<^verbatim>\<open>runQuery\<close>, with the lifecycle events \<open>acts\<close> that fall into its
  \<^verbatim>\<open>await\<close>, if it comes to one.
\<close>

definition runQuery :: "'a options_scheme \<Rightarrow> lifecycle list \<Rightarrow> world \<Rightarrow> world" where
  "runQuery opts acts w =
     (if useCacheOption opts \<and> cache_has (cacheKey opts) w
      then setLoading False (setData (cache_get (cacheKey opts) w) w)
      else
        (let w1 = setLoading True w;
             w2 = invoke (fn opts) (currentCallerArgs opts) w1;
             res = fn_call (fn opts) (currentCallerArgs opts)
         in runQuery_settle opts (resolution res) (await_if_promise res acts w2)))"

text \<open>The effect: \<^verbatim>\<open>isMounted.current = true; runQuery()\<close>. \<^verbatim>\<open>refetch\<close> is \<^verbatim>\<open>runQuery()\<close>.\<close>

definition useQuery_effect :: "'a options_scheme \<Rightarrow> lifecycle list \<Rightarrow> world \<Rightarrow> world" where
  "useQuery_effect opts acts w = runQuery opts acts (w\<lparr>isMounted := True\<rparr>)"

definition refetch :: "'a options_scheme \<Rightarrow> lifecycle list \<Rightarrow> world \<Rightarrow> world" where
  "refetch opts acts w = runQuery opts acts w"

section \<open>useSuspenseQuery\<close>

text \<open>
  The body of the effect's \<^verbatim>\<open>async\<close> block, which \<^verbatim>\<open>refetch\<close> repeats word for word:
  no cache lookup, no \<^verbatim>\<open>loading\<close>, no \<^verbatim>\<open>finally\<close>.
\<close>

definition suspense_settle :: "'a options_scheme \<Rightarrow> settlement \<Rightarrow> world \<Rightarrow> world" where
  "suspense_settle opts s w =
     (case s of
        Fulfilled returnData \<Rightarrow>
          (if isMounted w
           then cache_write opts (cacheKey opts) returnData (setData returnData w)
           else w)
      | Rejected e \<Rightarrow> catch_block e w)"

definition suspense_run :: "'a options_scheme \<Rightarrow> lifecycle list \<Rightarrow> world \<Rightarrow> world" where
  "suspense_run opts acts w =
     (let w1 = invoke (fn opts) (currentCallerArgs opts) w;
          res = fn_call (fn opts) (currentCallerArgs opts)
      in suspense_settle opts (resolution res) (await_if_promise res acts w1))"

definition useSuspenseQuery_effect ::
  "'a options_scheme \<Rightarrow> lifecycle list \<Rightarrow> world \<Rightarrow> world" where
  "useSuspenseQuery_effect opts acts w = suspense_run opts acts (w\<lparr>isMounted := True\<rparr>)"

definition suspense_refetch :: "'a options_scheme \<Rightarrow> lifecycle list \<Rightarrow> world \<Rightarrow> world" where
  "suspense_refetch opts acts w = suspense_run opts acts w"

section \<open>useMutation\<close>

text \<open>
  \<^verbatim>\<open>mutate(...args)\<close>. The key is computed from the arguments of the call. After
  \<^verbatim>\<open>setData\<close> the callback runs, then the cache is written; a callback that throws
  lands in the \<^verbatim>\<open>catch\<close>.
\<close>

definition mutate_key :: "'a options_scheme \<Rightarrow> jsval list \<Rightarrow> string" where
  "mutate_key opts args =
     (case customQueryKey opts of
        Some k \<Rightarrow> k
      | None \<Rightarrow> generateCacheKey (fn opts) (Some args))"

definition mutate_settle ::
  "'a mutation_options_scheme \<Rightarrow> jsval list \<Rightarrow> settlement \<Rightarrow> world \<Rightarrow> world" where
  "mutate_settle opts args s w =
     finally_block
       (case s of
          Fulfilled returnData \<Rightarrow>
            (if isMounted w
             then (let w1 = setData returnData w
                   in case onSuccess opts of
                        None \<Rightarrow> cache_write opts (mutate_key opts args) returnData w1
                      | Some callback \<Rightarrow>
                          (let w2 = record_event (OnSuccess returnData) w1
                           in case callback returnData (cache w2) of
                                Inl e \<Rightarrow> catch_block e w2
                              | Inr c \<Rightarrow>
                                  cache_write opts (mutate_key opts args) returnData
                                    (w2\<lparr>cache := c\<rparr>)))
             else w)
        | Rejected e \<Rightarrow> catch_block e w)"

text \<open>\<^verbatim>\<open>mutate\<close> up to the producer call.\<close>

definition mutate_begin :: "'a mutation_options_scheme \<Rightarrow> jsval list \<Rightarrow> world \<Rightarrow> world" where
  "mutate_begin opts args w =
     invoke (fn opts) args (if isMounted w then setLoading True w else w)"

text \<open>One call of \<^verbatim>\<open>mutate\<close> on its own.\<close>

definition mutate ::
  "'a mutation_options_scheme \<Rightarrow> jsval list \<Rightarrow> lifecycle list \<Rightarrow> world \<Rightarrow> world" where
  "mutate opts args acts w =
     (let res = fn_call (fn opts) args
      in mutate_settle opts args (resolution res)
           (await_if_promise res acts (mutate_begin opts args w)))"

section \<open>useAsync\<close>

text \<open>
  The function \<^verbatim>\<open>useAsync\<close> returns (\<^verbatim>\<open>newFn\<close>) is a closure over the wrapped function and
  over the \<^verbatim>\<open>data\<close> of the render that created it. \<^verbatim>\<open>useCallback(..., [fn])\<close> hands the
  closure of the previous render back unless the wrapped function is another object
  (\<open>r\<close> is the identity of the wrapped function).
\<close>

record 'f closure =
  captured_fn :: 'f
  captured_ref :: nat
  captured_data :: jsval

definition useCallback :: "'f closure option \<Rightarrow> 'f \<Rightarrow> nat \<Rightarrow> world \<Rightarrow> 'f closure" where
  "useCallback previous f r w =
     (case previous of
        None \<Rightarrow> \<lparr>captured_fn = f, captured_ref = r, captured_data = a_data w\<rparr>
      | Some c \<Rightarrow>
          (if captured_ref c = r then c
           else \<lparr>captured_fn = f, captured_ref = r, captured_data = a_data w\<rparr>))"

text \<open>One render of \<^verbatim>\<open>useAsync(fn)\<close>: the callable it returns.\<close>

definition useAsync :: "producer closure option \<Rightarrow> producer \<Rightarrow> world \<Rightarrow> producer closure" where
  "useAsync previous f w = useCallback previous f (fn_ref f) w"

text \<open>
  The part of \<^verbatim>\<open>newFn\<close> that runs before the wrapped function is called, and the part
  after its \<^verbatim>\<open>await\<close>. Neither looks at \<^verbatim>\<open>isMounted\<close>: \<^verbatim>\<open>useAsync\<close> has no such ref.
\<close>

definition useAsync_begin :: "world \<Rightarrow> world" where
  "useAsync_begin w = a_setLoading True (a_setError None w)"

definition useAsync_settle :: "settlement \<Rightarrow> world \<Rightarrow> world" where
  "useAsync_settle s w =
     a_setLoading False
       (case s of
          Fulfilled returnData \<Rightarrow> a_setData returnData w
        | Rejected e \<Rightarrow> a_setError (Some (normalize_error e)) w)"

text \<open>The effects of calling \<^verbatim>\<open>newFn(...args)\<close> around a producer.\<close>

definition useAsync_run :: "producer \<Rightarrow> jsval list \<Rightarrow> lifecycle list \<Rightarrow> world \<Rightarrow> world" where
  "useAsync_run f args acts w =
     (let w1 = invoke f args (useAsync_begin w);
          res = fn_call f args
      in useAsync_settle (resolution res) (await_call res acts w1))"

text \<open>Calling \<^verbatim>\<open>newFn(...args)\<close>: what it returns at once, and the world once it has settled.\<close>

definition newFn ::
  "producer closure \<Rightarrow> jsval list \<Rightarrow> lifecycle list \<Rightarrow> world \<Rightarrow> jsval \<times> world" where
  "newFn c args acts w = (captured_data c, useAsync_run (captured_fn c) args acts w)"

text \<open>
  \<^verbatim>\<open>useMutation\<close> returns \<^verbatim>\<open>useAsync(mutate)\<close>. The wrapped function is \<^verbatim>\<open>mutate\<close>, whose
  promise always fulfils with \<^verbatim>\<open>undefined\<close>, since \<^verbatim>\<open>mutate\<close> catches whatever is thrown.
  When the producer returns a promise the lifecycle events fall into \<^verbatim>\<open>mutate\<close>'s own
  \<^verbatim>\<open>await\<close>; otherwise \<^verbatim>\<open>mutate\<close> runs to its end and they fall into the wrapper's.
  \<open>r\<close> is the identity of the memoised \<^verbatim>\<open>mutate\<close> of this render.
\<close>

definition useMutation ::
  "'a mutation_options_scheme closure option \<Rightarrow> 'a mutation_options_scheme \<Rightarrow> nat \<Rightarrow> world
     \<Rightarrow> 'a mutation_options_scheme closure" where
  "useMutation previous opts r w = useCallback previous opts r w"

definition mutate_run ::
  "'a mutation_options_scheme \<Rightarrow> jsval list \<Rightarrow> lifecycle list \<Rightarrow> world \<Rightarrow> world" where
  "mutate_run opts args acts w =
     (let res = fn_call (fn opts) args;
          w1 = mutate opts args acts (useAsync_begin w);
          w2 = (case res of Promise s \<Rightarrow> w1 | _ \<Rightarrow> during_await acts w1)
      in useAsync_settle (Fulfilled JUndefined) w2)"

definition mutateFn ::
  "'a mutation_options_scheme closure \<Rightarrow> jsval list \<Rightarrow> lifecycle list \<Rightarrow> world
     \<Rightarrow> jsval \<times> world" where
  "mutateFn c args acts w = (captured_data c, mutate_run (captured_fn c) args acts w)"

section \<open>Vocabulary of the specification\<close>

text \<open>
  Deep equality as the specification means it for argument lists ("structurally equal by
  value, not by reference"): primitives are equal when they are the same value, arrays
  when they are equal element by element, objects when they have the same properties with
  deep-equal values, whatever the order the properties were added in. The identities of
  the arrays and objects play no part.
\<close>

fun deep_equal :: "jsval \<Rightarrow> jsval \<Rightarrow> bool"
  and deep_equal_list :: "jsval list \<Rightarrow> jsval list \<Rightarrow> bool"
  and deep_equal_props :: "(string \<times> jsval) list \<Rightarrow> (string \<times> jsval) list \<Rightarrow> bool"
  and deep_equal_prop :: "string \<Rightarrow> jsval \<Rightarrow> (string \<times> jsval) list \<Rightarrow> bool" where
  "deep_equal JUndefined b = (b = JUndefined)"
| "deep_equal JNull b = (b = JNull)"
| "deep_equal (JBool x) b = (b = JBool x)"
| "deep_equal (JNum n) b = (b = JNum n)"
| "deep_equal JNaN b = (b = JNaN)"
| "deep_equal JInfinity b = (b = JInfinity)"
| "deep_equal JNegInfinity b = (b = JNegInfinity)"
| "deep_equal (JStr s) b = (b = JStr s)"
| "deep_equal (JArr r xs) b = (case b of JArr r' ys \<Rightarrow> deep_equal_list xs ys | _ \<Rightarrow> False)"
| "deep_equal (JObj r ps) b =
     (case b of
        JObj r' qs \<Rightarrow> length ps = length qs \<and> deep_equal_props ps qs
      | _ \<Rightarrow> False)"
| "deep_equal_list [] ys = (ys = [])"
| "deep_equal_list (x # xs) [] = False"
| "deep_equal_list (x # xs) (y # ys) = (deep_equal x y \<and> deep_equal_list xs ys)"
| "deep_equal_props [] qs = True"
| "deep_equal_props ((k, v) # ps) qs = (deep_equal_prop k v qs \<and> deep_equal_props ps qs)"
| "deep_equal_prop k v [] = False"
| "deep_equal_prop k v ((k', v') # qs) =
     (if k = k' then deep_equal v v' else deep_equal_prop k v qs)"

text \<open>A value all of whose objects name each property once, as every JavaScript object does.\<close>

fun well_formed :: "jsval \<Rightarrow> bool"
  and well_formed_list :: "jsval list \<Rightarrow> bool"
  and well_formed_props :: "(string \<times> jsval) list \<Rightarrow> bool" where
  "well_formed (JArr r xs) = well_formed_list xs"
| "well_formed (JObj r ps) = (distinct (map fst ps) \<and> well_formed_props ps)"
| "well_formed a = True"
| "well_formed_list [] = True"
| "well_formed_list (x # xs) = (well_formed x \<and> well_formed_list xs)"
| "well_formed_props [] = True"
| "well_formed_props ((k, v) # ps) = (well_formed v \<and> well_formed_props ps)"

text \<open>Two values whose corresponding objects list their properties in the same order.\<close>

fun same_order :: "jsval \<Rightarrow> jsval \<Rightarrow> bool"
  and same_order_list :: "jsval list \<Rightarrow> jsval list \<Rightarrow> bool"
  and same_order_props :: "(string \<times> jsval) list \<Rightarrow> (string \<times> jsval) list \<Rightarrow> bool" where
  "same_order (JArr r xs) (JArr r' ys) = same_order_list xs ys"
| "same_order (JObj r ps) (JObj r' qs) = same_order_props ps qs"
| "same_order a b = True"
| "same_order_list (x # xs) (y # ys) = (same_order x y \<and> same_order_list xs ys)"
| "same_order_list xs ys = True"
| "same_order_props ((k, v) # ps) ((k', v') # qs) =
     (k = k' \<and> same_order v v' \<and> same_order_props ps qs)"
| "same_order_props ps qs = (ps = [] \<and> qs = [])"

text \<open>
  A value whose \<^verbatim>\<open>JSON.stringify\<close> text is shared by whatever is deep-equal to it and lists
  its properties in the same order.
\<close>

definition same_text :: "jsval \<Rightarrow> bool" where
  "same_text a =
     (\<forall>b. deep_equal a b \<and> same_order a b \<and> well_formed a \<and> well_formed b \<longrightarrow>
          JSON_stringify a = JSON_stringify b)"

text \<open>The events an execution added to the timeline of the world it started in.\<close>

definition new_events :: "world \<Rightarrow> world \<Rightarrow> event list" where
  "new_events w w' = drop (length (trace w)) (trace w')"

fun is_Invoke :: "event \<Rightarrow> bool" where
  "is_Invoke (Invoke r args) = True"
| "is_Invoke e = False"

text \<open>How often a producer was called.\<close>

definition invocations :: "event list \<Rightarrow> nat" where
  "invocations es = length (filter is_Invoke es)"

text \<open>What was put on the timeline after the component's first detach.\<close>

definition after_detach :: "event list \<Rightarrow> event list" where
  "after_detach es = tl (dropWhile (\<lambda>e. e \<noteq> Lifecycle Detach) es)"

text \<open>
  Whether the component is attached at the moment the producer's result reaches the body
  that waited with \<^verbatim>\<open>res instanceof Promise ? await res : res\<close>.
\<close>

definition attached_at_settlement :: "outcome \<Rightarrow> lifecycle list \<Rightarrow> world \<Rightarrow> bool" where
  "attached_at_settlement res acts w = isMounted (await_if_promise res acts w)"

text \<open>Whether the \<^verbatim>\<open>onSuccess\<close> callback, if there is one, returns rather than throws.\<close>

definition onSuccess_returns :: "'a mutation_options_scheme \<Rightarrow> jsval \<Rightarrow> world \<Rightarrow> bool" where
  "onSuccess_returns opts v w =
     (case onSuccess opts of
        None \<Rightarrow> True
      | Some callback \<Rightarrow> (case callback v (cache w) of Inl e \<Rightarrow> False | Inr c \<Rightarrow> True))"

section \<open>Example inputs\<close>

definition getUser :: producer where
  "getUser = \<lparr>fn_ref = 1, fn_name = ''getUser'',
     fn_toString = ''async function getUser(q) { return 42 }'',
     fn_call = (\<lambda>args. Promise (Fulfilled (JNum 42)))\<rparr>"

definition failing :: producer where
  "failing = \<lparr>fn_ref = 2, fn_name = ''failing'',
     fn_toString = ''function failing() { throw \"boom\" }'',
     fn_call = (\<lambda>args. Threw (OtherValue (JStr ''boom'')))\<rparr>"

definition addUser :: producer where
  "addUser = \<lparr>fn_ref = 3, fn_name = ''addUser'',
     fn_toString = ''function addUser(u) { return 2 }'',
     fn_call = (\<lambda>args. Returned (JNum 2))\<rparr>"

definition query_getUser :: options where
  "query_getUser = \<lparr>fn = getUser, callerArgs = None, useCache = None, customQueryKey = None\<rparr>"

definition query_k1 :: "producer \<Rightarrow> options" where
  "query_k1 f = \<lparr>fn = f, callerArgs = None, useCache = None, customQueryKey = Some ''k1''\<rparr>"

definition mutation_k1 :: "producer \<Rightarrow> mutation_options" where
  "mutation_k1 f = \<lparr>fn = f, callerArgs = None, useCache = None, customQueryKey = Some ''k1'',
     onSuccess = None\<rparr>"

text \<open>A mutation whose \<^verbatim>\<open>onSuccess\<close> invalidates the key \<^verbatim>\<open>users\<close>.\<close>

definition mutation_invalidating :: "producer \<Rightarrow> mutation_options" where
  "mutation_invalidating f = \<lparr>fn = f, callerArgs = None, useCache = None,
     customQueryKey = Some ''k1'', onSuccess = Some (\<lambda>v c. Inr (c(''users'' := None)))\<rparr>"

text \<open>
  Three argument lists, each holding one object of its own: \<^verbatim>\<open>[{a: 1, b: [2, "x"]}]\<close>
  twice, and \<^verbatim>\<open>[{b: [2, "x"], a: 1}]\<close>.
\<close>

definition args_ab :: "jsval list" where
  "args_ab = [JObj 10 [(''a'', JNum 1), (''b'', JArr 11 [JNum 2, JStr ''x''])]]"

definition args_ab_again :: "jsval list" where
  "args_ab_again = [JObj 20 [(''a'', JNum 1), (''b'', JArr 21 [JNum 2, JStr ''x''])]]"

definition args_ba :: "jsval list" where
  "args_ba = [JObj 30 [(''b'', JArr 31 [JNum 2, JStr ''x'']), (''a'', JNum 1)]]"

text \<open>A producer whose promise rejects with an \<^verbatim>\<open>Error\<close> instance.\<close>

definition rejecting :: producer where
  "rejecting = \<lparr>fn_ref = 4, fn_name = ''rejecting'',
     fn_toString = ''async function rejecting() { throw new TypeError(\"bad\") }'',
     fn_call = (\<lambda>args. Promise (Rejected (ErrorValue (JsError ''TypeError'' ''bad''))))\<rparr>"

section \<open>Deep equality and property order\<close>

lemma deep_equal_prop_distinct:
  "distinct (map fst qs) \<Longrightarrow> (k, v') \<in> set qs \<Longrightarrow> deep_equal_prop k v qs = deep_equal v v'"
proof (induction qs)
  case Nil
  then show ?case by simp
next
  case (Cons q qs)
  obtain k' u where q: "q = (k', u)" by (cases q)
  show ?case
  proof (cases "k = k'")
    case True
    with Cons.prems q have "(k, v') \<notin> set qs" by (auto simp: image_iff)
    with Cons.prems q True show ?thesis by simp
  next
    case False
    with Cons q show ?thesis by auto
  qed
qed

lemma same_text_list:
  "(\<And>x. x \<in> set xs \<Longrightarrow> same_text x) \<Longrightarrow> deep_equal_list xs ys \<Longrightarrow>
   same_order_list xs ys \<Longrightarrow> well_formed_list xs \<Longrightarrow> well_formed_list ys \<Longrightarrow>
   stringify_elems xs = stringify_elems ys"
proof (induction xs arbitrary: ys)
  case Nil
  then show ?case by simp
next
  case (Cons x xs)
  then obtain y ys' where ys: "ys = y # ys'" by (cases ys) auto
  with Cons.prems have "JSON_stringify x = JSON_stringify y"
    by (auto simp: same_text_def)
  moreover from Cons ys have "stringify_elems xs = stringify_elems ys'" by auto
  ultimately show ?case using ys by simp
qed

lemma same_text_props:
  "(\<And>k v. (k, v) \<in> set ps \<Longrightarrow> same_text v) \<Longrightarrow> deep_equal_props ps Q \<Longrightarrow>
   same_order_props ps qs \<Longrightarrow> set qs \<subseteq> set Q \<Longrightarrow> distinct (map fst Q) \<Longrightarrow>
   well_formed_props ps \<Longrightarrow> well_formed_props qs \<Longrightarrow>
   stringify_props ps = stringify_props qs"
proof (induction ps arbitrary: qs)
  case Nil
  then show ?case by (cases qs) auto
next
  case (Cons p ps)
  obtain k v where p: "p = (k, v)" by (cases p)
  from Cons.prems(3) p obtain v' qs' where qs: "qs = (k, v') # qs'"
    by (cases qs) auto
  from Cons.prems qs have mem: "(k, v') \<in> set Q" by auto
  from Cons.prems(2) p have "deep_equal_prop k v Q" by simp
  with deep_equal_prop_distinct [OF Cons.prems(5) mem] have de: "deep_equal v v'" by simp
  from Cons.prems(1) p have "same_text v" by auto
  with de Cons.prems(3,6,7) p qs have "JSON_stringify v = JSON_stringify v'"
    by (auto simp: same_text_def)
  moreover from Cons.prems p qs have "stringify_props ps = stringify_props qs'"
    by (intro Cons.IH) auto
  ultimately show ?case using p qs by (simp split: option.splits)
qed

lemma same_text_all: "same_text a"
proof (induction a)
  case (JArr r xs)
  show ?case unfolding same_text_def
  proof (intro allI impI)
    fix b
    assume h: "deep_equal (JArr r xs) b \<and> same_order (JArr r xs) b \<and>
      well_formed (JArr r xs) \<and> well_formed b"
    then obtain r' ys where b: "b = JArr r' ys" by (cases b) auto
    with h JArr have "stringify_elems xs = stringify_elems ys"
      by (intro same_text_list) auto
    with b show "JSON_stringify (JArr r xs) = JSON_stringify b" by simp
  qed
next
  case (JObj r ps)
  show ?case unfolding same_text_def
  proof (intro allI impI)
    fix b
    assume h: "deep_equal (JObj r ps) b \<and> same_order (JObj r ps) b \<and>
      well_formed (JObj r ps) \<and> well_formed b"
    then obtain r' qs where b: "b = JObj r' qs" by (cases b) auto
    have "stringify_props ps = stringify_props qs"
    proof (rule same_text_props [where Q = qs])
      fix k v assume "(k, v) \<in> set ps"
      then show "same_text v" using JObj by fastforce
    qed (use h b in auto)
    with b show "JSON_stringify (JObj r ps) = JSON_stringify b" by simp
  qed
qed (auto simp: same_text_def)

text \<open>
  The text of an array depends on the values of its elements and on the order of their
  properties, not on which objects they are.
\<close>

lemma stringify_array_deep_equal:
  assumes "deep_equal_list a1 a2" and "same_order_list a1 a2"
    and "well_formed_list a1" and "well_formed_list a2"
  shows "stringify_array a1 = stringify_array a2"
proof -
  have "stringify_elems a1 = stringify_elems a2"
    using assms by (intro same_text_list) (auto simp: same_text_all)
  then show ?thesis by (simp add: stringify_array_def)
qed

section \<open>Facts about the hook state\<close>

lemmas hook_defs = setData_def setLoading_def setError_def a_setData_def a_setLoading_def
  a_setError_def cache_set_def cache_has_def cache_get_def record_event_def invoke_def
  catch_block_def finally_block_def cache_write_def

lemma lifecycle_step_fields [simp]:
  "trace (lifecycle_step a w) = trace w @ [Lifecycle a]"
  "cache (lifecycle_step a w) = cache w"
  "data (lifecycle_step a w) = data w"
  "loading (lifecycle_step a w) = loading w"
  "error (lifecycle_step a w) = error w"
  "a_data (lifecycle_step a w) = a_data w"
  "a_loading (lifecycle_step a w) = a_loading w"
  "a_error (lifecycle_step a w) = a_error w"
  by (cases a; simp add: record_event_def)+

lemma during_await_trace [simp]:
  "trace (during_await acts w) = trace w @ map Lifecycle acts"
  by (induction acts arbitrary: w) simp_all

lemma during_await_fields [simp]:
  "cache (during_await acts w) = cache w"
  "data (during_await acts w) = data w"
  "loading (during_await acts w) = loading w"
  "error (during_await acts w) = error w"
  "a_data (during_await acts w) = a_data w"
  "a_loading (during_await acts w) = a_loading w"
  "a_error (during_await acts w) = a_error w"
  by (induction acts arbitrary: w; simp)+

lemma await_if_promise_fields [simp]:
  "cache (await_if_promise res acts w) = cache w"
  "data (await_if_promise res acts w) = data w"
  "loading (await_if_promise res acts w) = loading w"
  "error (await_if_promise res acts w) = error w"
  "a_data (await_if_promise res acts w) = a_data w"
  "a_loading (await_if_promise res acts w) = a_loading w"
  "a_error (await_if_promise res acts w) = a_error w"
  by (cases res; simp)+

lemma await_call_fields [simp]:
  "cache (await_call res acts w) = cache w"
  "data (await_call res acts w) = data w"
  "loading (await_call res acts w) = loading w"
  "error (await_call res acts w) = error w"
  "a_data (await_call res acts w) = a_data w"
  "a_loading (await_call res acts w) = a_loading w"
  "a_error (await_call res acts w) = a_error w"
  by (cases res; simp)+

text \<open>The lifecycle events that a wait puts on the timeline.\<close>

lemma await_if_promise_trace:
  "trace (await_if_promise res acts w) =
     trace w @ (case res of Promise s \<Rightarrow> map Lifecycle acts | _ \<Rightarrow> [])"
  by (cases res) simp_all

lemma await_call_trace:
  "trace (await_call res acts w) =
     trace w @ (case res of Threw e \<Rightarrow> [] | _ \<Rightarrow> map Lifecycle acts)"
  by (cases res) simp_all

lemma begin_fields [simp]:
  "cache (invoke f args w) = cache w"
  "data (invoke f args w) = data w"
  "error (invoke f args w) = error w"
  "loading (invoke f args w) = loading w"
  "a_data (invoke f args w) = a_data w"
  "cache (setLoading b w) = cache w"
  "data (setLoading b w) = data w"
  "error (setLoading b w) = error w"
  "cache (useAsync_begin w) = cache w"
  "data (useAsync_begin w) = data w"
  "a_data (useAsync_begin w) = a_data w"
  "data (mutate_begin opts args w) = data w"
  "error (mutate_begin opts args w) = error w"
  by (simp_all add: hook_defs useAsync_begin_def mutate_begin_def)

lemma mutate_begin_cache [simp]:
  "cache (mutate_begin opts args w) = cache w"
  by (simp add: mutate_begin_def hook_defs)

section \<open>The lifecycle guard\<close>

lemma isMounted_lifecycle_step:
  "isMounted (lifecycle_step a w) = (a = Attach)"
  by (cases a) (simp_all add: record_event_def)

lemma isMounted_during_await_cong:
  "isMounted w = isMounted w' \<Longrightarrow> isMounted (during_await acts w) = isMounted (during_await acts w')"
proof (induction acts arbitrary: w w')
  case Nil
  then show ?case by simp
next
  case (Cons a acts)
  have "isMounted (lifecycle_step a w) = isMounted (lifecycle_step a w')"
    by (simp add: isMounted_lifecycle_step)
  then show ?case by (simp add: Cons.IH [of "lifecycle_step a w" "lifecycle_step a w'"])
qed

lemma isMounted_await_if_promise_cong:
  "isMounted w = isMounted w' \<Longrightarrow>
   isMounted (await_if_promise res acts w) = isMounted (await_if_promise res acts w')"
  by (cases res) (simp_all add: isMounted_during_await_cong [of w w'])

lemma attached_at_settlement_cong:
  "isMounted w = isMounted w' \<Longrightarrow>
   attached_at_settlement res acts w = attached_at_settlement res acts w'"
  unfolding attached_at_settlement_def by (rule isMounted_await_if_promise_cong)

lemma isMounted_setters [simp]:
  "isMounted (setData v w) = isMounted w"
  "isMounted (setLoading b w) = isMounted w"
  "isMounted (setError e w) = isMounted w"
  "isMounted (a_setData v w) = isMounted w"
  "isMounted (a_setLoading b w) = isMounted w"
  "isMounted (a_setError e w) = isMounted w"
  "isMounted (invoke f args w) = isMounted w"
  "isMounted (cache_set k v w) = isMounted w"
  "isMounted (record_event ev w) = isMounted w"
  by (simp_all add: hook_defs)

lemma isMounted_begin [simp]:
  "isMounted (mutate_begin opts args w) = isMounted w"
  "isMounted (useAsync_begin w) = isMounted w"
  by (simp_all add: mutate_begin_def useAsync_begin_def)

lemma isMounted_await_if_promise [simp]:
  "isMounted (await_if_promise res acts w) = attached_at_settlement res acts w"
  by (simp add: attached_at_settlement_def)

lemma attached_at_settlement_begin [simp]:
  "attached_at_settlement res acts (setLoading b w) = attached_at_settlement res acts w"
  "attached_at_settlement res acts (invoke f args w) = attached_at_settlement res acts w"
  "attached_at_settlement res acts (mutate_begin opts args w) = attached_at_settlement res acts w"
  "attached_at_settlement res acts (useAsync_begin w) = attached_at_settlement res acts w"
  by (rule attached_at_settlement_cong, simp)+

section \<open>Settlements\<close>

lemma runQuery_settle_trace:
  "trace (runQuery_settle opts s w) = trace w @
     (if isMounted w then
        (case s of
           Fulfilled v \<Rightarrow> Publish Hook (SetData v) #
             (if useCacheOption opts then [CacheSet (cacheKey opts) v] else [])
         | Rejected e \<Rightarrow> [Publish Hook (SetError (Some (normalize_error e)))])
        @ [Publish Hook (SetLoading False)]
      else [])"
  by (cases s) (simp_all add: runQuery_settle_def hook_defs)

lemma runQuery_settle_cache:
  "cache (runQuery_settle opts s w) =
     (case s of
        Fulfilled v \<Rightarrow>
          if isMounted w \<and> useCacheOption opts then (cache w)(cacheKey opts \<mapsto> v) else cache w
      | Rejected e \<Rightarrow> cache w)"
  by (cases s) (simp_all add: runQuery_settle_def hook_defs)

lemma runQuery_settle_state:
  "data (runQuery_settle opts s w) =
     (case s of Fulfilled v \<Rightarrow> if isMounted w then v else data w | Rejected e \<Rightarrow> data w)"
  "error (runQuery_settle opts s w) =
     (case s of
        Fulfilled v \<Rightarrow> error w
      | Rejected e \<Rightarrow> if isMounted w then Some (normalize_error e) else error w)"
  "loading (runQuery_settle opts s w) = (if isMounted w then False else loading w)"
  by (cases s; simp add: runQuery_settle_def hook_defs)+

lemma runQuery_settle_detached:
  "\<not> isMounted w \<Longrightarrow> runQuery_settle opts s w = w"
  by (cases s) (simp_all add: runQuery_settle_def hook_defs)

lemma suspense_settle_trace:
  "trace (suspense_settle opts s w) = trace w @
     (if isMounted w then
        (case s of
           Fulfilled v \<Rightarrow> Publish Hook (SetData v) #
             (if useCacheOption opts then [CacheSet (cacheKey opts) v] else [])
         | Rejected e \<Rightarrow> [Publish Hook (SetError (Some (normalize_error e)))])
      else [])"
  by (cases s) (simp_all add: suspense_settle_def hook_defs)

lemma suspense_settle_cache:
  "cache (suspense_settle opts s w) =
     (case s of
        Fulfilled v \<Rightarrow>
          if isMounted w \<and> useCacheOption opts then (cache w)(cacheKey opts \<mapsto> v) else cache w
      | Rejected e \<Rightarrow> cache w)"
  by (cases s) (simp_all add: suspense_settle_def hook_defs)

lemma suspense_settle_state:
  "data (suspense_settle opts s w) =
     (case s of Fulfilled v \<Rightarrow> if isMounted w then v else data w | Rejected e \<Rightarrow> data w)"
  "error (suspense_settle opts s w) =
     (case s of
        Fulfilled v \<Rightarrow> error w
      | Rejected e \<Rightarrow> if isMounted w then Some (normalize_error e) else error w)"
  by (cases s; simp add: suspense_settle_def hook_defs)+

lemma suspense_settle_detached:
  "\<not> isMounted w \<Longrightarrow> suspense_settle opts s w = w"
  by (cases s) (simp_all add: suspense_settle_def hook_defs)

lemma mutate_settle_trace:
  "trace (mutate_settle opts args s w) = trace w @
     (if isMounted w then
        (case s of
           Fulfilled v \<Rightarrow> Publish Hook (SetData v) #
             (case onSuccess opts of
                None \<Rightarrow> (if useCacheOption opts then [CacheSet (mutate_key opts args) v] else [])
              | Some callback \<Rightarrow> OnSuccess v #
                  (case callback v (cache w) of
                     Inl e \<Rightarrow> [Publish Hook (SetError (Some (normalize_error e)))]
                   | Inr c \<Rightarrow>
                       (if useCacheOption opts then [CacheSet (mutate_key opts args) v] else [])))
         | Rejected e \<Rightarrow> [Publish Hook (SetError (Some (normalize_error e)))])
        @ [Publish Hook (SetLoading False)]
      else [])"
  by (cases s)
    (auto simp: mutate_settle_def hook_defs Let_def split: option.splits sum.splits)

lemma mutate_settle_detached:
  "\<not> isMounted w \<Longrightarrow> mutate_settle opts args s w = w"
  by (cases s) (simp_all add: mutate_settle_def hook_defs)

lemma mutate_settle_cache_written:
  assumes "isMounted w" and "useCacheOption opts" and "onSuccess_returns opts v w"
  shows "cache (mutate_settle opts args (Fulfilled v) w) (mutate_key opts args) = Some v"
  using assms
  by (auto simp: mutate_settle_def onSuccess_returns_def hook_defs Let_def
      split: option.splits sum.splits)

lemma mutate_settle_rejected:
  "data (mutate_settle opts args (Rejected e) w) = data w"
  "cache (mutate_settle opts args (Rejected e) w) = cache w"
  "error (mutate_settle opts args (Rejected e) w) =
     (if isMounted w then Some (normalize_error e) else error w)"
  by (simp_all add: mutate_settle_def hook_defs)

lemma onSuccess_returns_cong:
  "cache w = cache w' \<Longrightarrow> onSuccess_returns opts v w = onSuccess_returns opts v w'"
  by (auto simp: onSuccess_returns_def split: option.splits)

lemma useAsync_settle_trace:
  "trace (useAsync_settle s w) = trace w @
     [(case s of
         Fulfilled v \<Rightarrow> Publish Async (SetData v)
       | Rejected e \<Rightarrow> Publish Async (SetError (Some (normalize_error e)))),
      Publish Async (SetLoading False)]"
  by (cases s) (simp_all add: useAsync_settle_def hook_defs)

lemma useAsync_settle_state:
  "a_data (useAsync_settle s w) = (case s of Fulfilled v \<Rightarrow> v | Rejected e \<Rightarrow> a_data w)"
  "a_error (useAsync_settle s w) =
     (case s of Fulfilled v \<Rightarrow> a_error w | Rejected e \<Rightarrow> Some (normalize_error e))"
  "a_loading (useAsync_settle s w) = False"
  "cache (useAsync_settle s w) = cache w"
  "data (useAsync_settle s w) = data w"
  by (cases s; simp add: useAsync_settle_def hook_defs)+

lemma useAsync_begin_trace:
  "trace (useAsync_begin w) =
     trace w @ [Publish Async (SetError None), Publish Async (SetLoading True)]"
  by (simp add: useAsync_begin_def hook_defs)

lemma mutate_begin_trace:
  "trace (mutate_begin opts args w) = trace w @
     (if isMounted w then [Publish Hook (SetLoading True)] else []) @
     [Invoke (fn_ref (fn opts)) args]"
  by (simp add: mutate_begin_def hook_defs)

text \<open>The guarded hooks: what settles after a detach publishes nothing.\<close>

lemma guarded_hooks_drop_publications:
  assumes "\<not> attached_at_settlement res acts w"
  shows "runQuery_settle opts (resolution res)
           (await_if_promise res acts (invoke f args (setLoading True w))) =
         await_if_promise res acts (invoke f args (setLoading True w))"
    and "suspense_settle opts (resolution res) (await_if_promise res acts (invoke f args w)) =
         await_if_promise res acts (invoke f args w)"
    and "mutate_settle m args (resolution res) (await_if_promise res acts (mutate_begin m args w)) =
         await_if_promise res acts (mutate_begin m args w)"
  using assms
  by (simp_all add: runQuery_settle_detached suspense_settle_detached mutate_settle_detached)

section \<open>Whole executions\<close>

lemma runQuery_hit:
  assumes "useCacheOption opts" and "cache w (cacheKey opts) = Some v"
  shows "runQuery opts acts w = setLoading False (setData v w)"
  using assms by (simp add: runQuery_def cache_has_def cache_get_def)

lemma runQuery_miss:
  assumes "\<not> (useCacheOption opts \<and> cache_has (cacheKey opts) w)"
  shows "runQuery opts acts w =
     runQuery_settle opts (resolution (fn_call (fn opts) (currentCallerArgs opts)))
       (await_if_promise (fn_call (fn opts) (currentCallerArgs opts)) acts
          (invoke (fn opts) (currentCallerArgs opts) (setLoading True w)))"
  using assms by (auto simp: runQuery_def Let_def)

lemma runQuery_miss_trace:
  assumes "\<not> (useCacheOption opts \<and> cache_has (cacheKey opts) w)"
  shows "trace (runQuery opts acts w) = trace w @
     Publish Hook (SetLoading True) #
     Invoke (fn_ref (fn opts)) (currentCallerArgs opts) #
     (case fn_call (fn opts) (currentCallerArgs opts) of
        Promise s \<Rightarrow> map Lifecycle acts | _ \<Rightarrow> []) @
     (if attached_at_settlement (fn_call (fn opts) (currentCallerArgs opts)) acts w then
        (case resolution (fn_call (fn opts) (currentCallerArgs opts)) of
           Fulfilled v \<Rightarrow> Publish Hook (SetData v) #
             (if useCacheOption opts then [CacheSet (cacheKey opts) v] else [])
         | Rejected e \<Rightarrow> [Publish Hook (SetError (Some (normalize_error e)))])
        @ [Publish Hook (SetLoading False)]
      else [])"
  using assms
  by (simp add: runQuery_miss runQuery_settle_trace await_if_promise_trace)
     (simp add: hook_defs)

lemma suspense_run_trace:
  "trace (suspense_run opts acts w) = trace w @
     Invoke (fn_ref (fn opts)) (currentCallerArgs opts) #
     (case fn_call (fn opts) (currentCallerArgs opts) of
        Promise s \<Rightarrow> map Lifecycle acts | _ \<Rightarrow> []) @
     (if attached_at_settlement (fn_call (fn opts) (currentCallerArgs opts)) acts w then
        (case resolution (fn_call (fn opts) (currentCallerArgs opts)) of
           Fulfilled v \<Rightarrow> Publish Hook (SetData v) #
             (if useCacheOption opts then [CacheSet (cacheKey opts) v] else [])
         | Rejected e \<Rightarrow> [Publish Hook (SetError (Some (normalize_error e)))])
      else [])"
  by (simp add: suspense_run_def Let_def suspense_settle_trace await_if_promise_trace)
     (simp add: hook_defs)

lemma mutate_trace:
  "trace (mutate opts args acts w) = trace w @
     (if isMounted w then [Publish Hook (SetLoading True)] else []) @
     Invoke (fn_ref (fn opts)) args #
     (case fn_call (fn opts) args of Promise s \<Rightarrow> map Lifecycle acts | _ \<Rightarrow> []) @
     (if attached_at_settlement (fn_call (fn opts) args) acts w then
        (case resolution (fn_call (fn opts) args) of
           Fulfilled v \<Rightarrow> Publish Hook (SetData v) #
             (case onSuccess opts of
                None \<Rightarrow> (if useCacheOption opts then [CacheSet (mutate_key opts args) v] else [])
              | Some callback \<Rightarrow> OnSuccess v #
                  (case callback v (cache w) of
                     Inl e \<Rightarrow> [Publish Hook (SetError (Some (normalize_error e)))]
                   | Inr c \<Rightarrow>
                       (if useCacheOption opts then [CacheSet (mutate_key opts args) v] else [])))
         | Rejected e \<Rightarrow> [Publish Hook (SetError (Some (normalize_error e)))])
        @ [Publish Hook (SetLoading False)]
      else [])"
  by (simp add: mutate_def Let_def mutate_settle_trace await_if_promise_trace mutate_begin_trace
      split: settlement.splits option.splits)

lemma useAsync_run_trace:
  "trace (useAsync_run f args acts w) = trace w @
     [Publish Async (SetError None), Publish Async (SetLoading True), Invoke (fn_ref f) args] @
     (case fn_call f args of Threw e \<Rightarrow> [] | _ \<Rightarrow> map Lifecycle acts) @
     [(case resolution (fn_call f args) of
         Fulfilled v \<Rightarrow> Publish Async (SetData v)
       | Rejected e \<Rightarrow> Publish Async (SetError (Some (normalize_error e)))),
      Publish Async (SetLoading False)]"
  by (simp add: useAsync_run_def Let_def useAsync_settle_trace await_call_trace
      useAsync_begin_trace invoke_def record_event_def)

lemma mutate_run_trace:
  "trace (mutate_run m args acts w) =
     trace (mutate m args acts (useAsync_begin w)) @
     (case fn_call (fn m) args of Promise s \<Rightarrow> [] | _ \<Rightarrow> map Lifecycle acts) @
     [Publish Async (SetData JUndefined), Publish Async (SetLoading False)]"
  by (simp add: mutate_run_def Let_def useAsync_settle_trace split: outcome.splits)

lemma mutate_run_hook_state:
  "cache (mutate_run m args acts w) = cache (mutate m args acts (useAsync_begin w))"
  "data (mutate_run m args acts w) = data (mutate m args acts (useAsync_begin w))"
  by (simp_all add: mutate_run_def Let_def useAsync_settle_state split: outcome.splits)

lemma a_data_useAsync_run:
  "a_data (useAsync_run f args acts w) =
     (case resolution (fn_call f args) of Fulfilled v \<Rightarrow> v | Rejected e \<Rightarrow> a_data w)"
  by (simp add: useAsync_run_def Let_def useAsync_settle_state split: settlement.splits)

lemma a_data_mutate_run:
  "a_data (mutate_run m args acts w) = JUndefined"
  by (simp add: mutate_run_def Let_def useAsync_settle_state)

lemma captured_ref_useCallback [simp]:
  "captured_ref (useCallback previous f r w) = r"
  by (simp add: useCallback_def split: option.splits)

lemma captured_data_useCallback:
  "captured_data (useCallback previous f r w) =
     (case previous of
        None \<Rightarrow> a_data w
      | Some c \<Rightarrow> if captured_ref c = r then captured_data c else a_data w)"
  by (simp add: useCallback_def split: option.splits)

lemma runQuery_keeps_error:
  "error (runQuery q acts w) = None \<Longrightarrow> error w = None"
  by (cases "useCacheOption q \<and> cache_has (cacheKey q) w")
    (auto simp: runQuery_def Let_def runQuery_settle_state hook_defs
      split: settlement.splits if_splits)

lemma suspense_run_keeps_error:
  "error (suspense_run q acts w) = None \<Longrightarrow> error w = None"
  by (auto simp: suspense_run_def Let_def suspense_settle_state split: settlement.splits if_splits)

section \<open>Counting and ordering events\<close>

lemma new_events_append [simp]:
  "trace w' = trace w @ es \<Longrightarrow> new_events w w' = es"
  by (simp add: new_events_def)

lemma invocations_append [simp]:
  "invocations (xs @ ys) = invocations xs + invocations ys"
  by (simp add: invocations_def)

lemma invocations_lifecycle [simp]:
  "invocations (map Lifecycle acts) = 0"
  by (induction acts) (simp_all add: invocations_def)

lemma invocations_simps [simp]:
  "invocations [] = 0"
  "invocations (Invoke r args # es) = Suc (invocations es)"
  "invocations (Publish c p # es) = invocations es"
  "invocations (CacheSet k v # es) = invocations es"
  "invocations (OnSuccess v # es) = invocations es"
  "invocations (Lifecycle a # es) = invocations es"
  by (simp_all add: invocations_def)

lemma invocations_mutate_run:
  "invocations (new_events w (mutate_run m args acts w)) = 1"
  by (simp add: new_events_def mutate_run_trace mutate_trace useAsync_begin_trace
      split: outcome.splits settlement.splits option.splits sum.splits)

lemma takeWhile_before_invoke [simp]:
  "takeWhile (\<lambda>e. \<not> is_Invoke e) (Invoke r args # es) = []"
  "takeWhile (\<lambda>e. \<not> is_Invoke e) (Publish c p # es) =
     Publish c p # takeWhile (\<lambda>e. \<not> is_Invoke e) es"
  by simp_all

lemma not_in_lifecycle [simp]:
  "Publish c p \<notin> set (map Lifecycle acts)"
  by auto

lemma in_butlast_Cons:
  "x \<in> set (butlast (a # es)) \<Longrightarrow> x = a \<or> x \<in> set es"
  by (auto dest: in_set_butlastD split: if_splits)

lemma runQuery_order:
  assumes "\<not> (useCacheOption q \<and> cache_has (cacheKey q) w)"
  shows "takeWhile (\<lambda>e. \<not> is_Invoke e) (new_events w (runQuery q acts w)) =
           [Publish Hook (SetLoading True)]"
    and "Publish Hook (SetLoading False) \<notin> set (butlast (new_events w (runQuery q acts w)))"
    and "attached_at_settlement (fn_call (fn q) (currentCallerArgs q)) acts w \<Longrightarrow>
         last (new_events w (runQuery q acts w)) = Publish Hook (SetLoading False) \<and>
         (case resolution (fn_call (fn q) (currentCallerArgs q)) of
            Fulfilled v \<Rightarrow> Publish Hook (SetData v)
          | Rejected e \<Rightarrow> Publish Hook (SetError (Some (normalize_error e))))
           \<in> set (butlast (new_events w (runQuery q acts w)))"
proof -
  note tr = runQuery_miss_trace [OF assms, of acts]
  show "takeWhile (\<lambda>e. \<not> is_Invoke e) (new_events w (runQuery q acts w)) =
      [Publish Hook (SetLoading True)]"
    by (simp add: new_events_def tr)
  show "Publish Hook (SetLoading False) \<notin> set (butlast (new_events w (runQuery q acts w)))"
    by (auto simp: new_events_def tr butlast_append
        split: if_splits settlement.splits outcome.splits dest!: in_butlast_Cons in_set_butlastD)
  show "last (new_events w (runQuery q acts w)) = Publish Hook (SetLoading False) \<and>
      (case resolution (fn_call (fn q) (currentCallerArgs q)) of
         Fulfilled v \<Rightarrow> Publish Hook (SetData v)
       | Rejected e \<Rightarrow> Publish Hook (SetError (Some (normalize_error e))))
        \<in> set (butlast (new_events w (runQuery q acts w)))"
    if "attached_at_settlement (fn_call (fn q) (currentCallerArgs q)) acts w"
    using that
    by (auto simp: new_events_def tr butlast_append split: settlement.splits)
qed

lemma mutate_order:
  shows "takeWhile (\<lambda>e. \<not> is_Invoke e) (new_events w (mutate m args acts w)) =
           (if isMounted w then [Publish Hook (SetLoading True)] else [])"
    and "Publish Hook (SetLoading False) \<notin> set (butlast (new_events w (mutate m args acts w)))"
    and "attached_at_settlement (fn_call (fn m) args) acts w \<Longrightarrow>
         last (new_events w (mutate m args acts w)) = Publish Hook (SetLoading False) \<and>
         (case resolution (fn_call (fn m) args) of
            Fulfilled v \<Rightarrow> Publish Hook (SetData v)
          | Rejected e \<Rightarrow> Publish Hook (SetError (Some (normalize_error e))))
           \<in> set (butlast (new_events w (mutate m args acts w)))"
proof -
  note tr = mutate_trace [of m args acts w]
  show "takeWhile (\<lambda>e. \<not> is_Invoke e) (new_events w (mutate m args acts w)) =
      (if isMounted w then [Publish Hook (SetLoading True)] else [])"
    by (simp add: new_events_def tr)
  show "Publish Hook (SetLoading False) \<notin> set (butlast (new_events w (mutate m args acts w)))"
    by (auto simp: new_events_def tr butlast_append
        split: if_splits settlement.splits outcome.splits option.splits sum.splits
        dest!: in_butlast_Cons in_set_butlastD)
  show "last (new_events w (mutate m args acts w)) = Publish Hook (SetLoading False) \<and>
      (case resolution (fn_call (fn m) args) of
         Fulfilled v \<Rightarrow> Publish Hook (SetData v)
       | Rejected e \<Rightarrow> Publish Hook (SetError (Some (normalize_error e))))
        \<in> set (butlast (new_events w (mutate m args acts w)))"
    if "attached_at_settlement (fn_call (fn m) args) acts w"
    using that
    by (auto simp: new_events_def tr butlast_append split: settlement.splits)
qed

lemma useAsync_order:
  shows "takeWhile (\<lambda>e. \<not> is_Invoke e) (new_events w (useAsync_run f args acts w)) =
           [Publish Async (SetError None), Publish Async (SetLoading True)]"
    and "Publish Async (SetLoading False) \<notin>
           set (butlast (new_events w (useAsync_run f args acts w)))"
    and "last (new_events w (useAsync_run f args acts w)) = Publish Async (SetLoading False)"
    and "(case resolution (fn_call f args) of
            Fulfilled v \<Rightarrow> Publish Async (SetData v)
          | Rejected e \<Rightarrow> Publish Async (SetError (Some (normalize_error e))))
           \<in> set (butlast (new_events w (useAsync_run f args acts w)))"
proof -
  note tr = useAsync_run_trace [of f args acts w]
  show "takeWhile (\<lambda>e. \<not> is_Invoke e) (new_events w (useAsync_run f args acts w)) =
      [Publish Async (SetError None), Publish Async (SetLoading True)]"
    by (simp add: new_events_def tr)
  show "Publish Async (SetLoading False) \<notin>
      set (butlast (new_events w (useAsync_run f args acts w)))"
    by (auto simp: new_events_def tr butlast_append
        split: if_splits settlement.splits outcome.splits)
  show "last (new_events w (useAsync_run f args acts w)) = Publish Async (SetLoading False)"
    by (simp add: new_events_def tr)
  show "(case resolution (fn_call f args) of
          Fulfilled v \<Rightarrow> Publish Async (SetData v)
        | Rejected e \<Rightarrow> Publish Async (SetError (Some (normalize_error e))))
      \<in> set (butlast (new_events w (useAsync_run f args acts w)))"
    by (simp add: new_events_def tr butlast_append)
qed

section \<open>Evaluation of the examples\<close>

lemmas key_eval = generateCacheKey_def stringify_array_def template_string_def json_quote_def
  json_escape_def show_int_def getUser_def args_ab_def args_ab_again_def args_ba_def

lemmas run_eval = runQuery_def runQuery_settle_def suspense_run_def suspense_settle_def
  mutate_def mutate_begin_def mutate_settle_def mutate_key_def mutate_run_def
  useAsync_run_def useAsync_begin_def useAsync_settle_def useQuery_effect_def refetch_def
  useSuspenseQuery_effect_def
  hook_defs useCacheOption_def cacheKey_def currentCallerArgs_def mount_def
  attached_at_settlement_def onSuccess_returns_def
  new_events_def invocations_def after_detach_def new_Error_def Let_def
  query_getUser_def query_k1_def mutation_k1_def failing_def addUser_def rejecting_def
  key_eval

section \<open>The cache round trip of useQuery\<close>

lemma runQuery_published_is_cached:
  assumes "useCacheOption opts"
    and "Publish Hook (SetData v) \<in> set (new_events w (runQuery opts acts w))"
  shows "cache (runQuery opts acts w) (cacheKey opts) = Some v"
proof (cases "cache_has (cacheKey opts) w")
  case True
  then obtain c where c: "cache w (cacheKey opts) = Some c"
    by (auto simp: cache_has_def)
  with assms show ?thesis
    by (simp add: runQuery_hit new_events_def hook_defs)
next
  case False
  let ?res = "fn_call (fn opts) (currentCallerArgs opts)"
  let ?w = "await_if_promise ?res acts
    (invoke (fn opts) (currentCallerArgs opts) (setLoading True w))"
  from False have run: "runQuery opts acts w = runQuery_settle opts (resolution ?res) ?w"
    by (simp add: runQuery_miss)
  have tr: "trace ?w = trace w @ Publish Hook (SetLoading True) #
      Invoke (fn_ref (fn opts)) (currentCallerArgs opts) #
      (case ?res of Promise s \<Rightarrow> map Lifecycle acts | _ \<Rightarrow> [])"
    by (simp add: await_if_promise_trace hook_defs)
  from assms(2) have "isMounted ?w \<and> resolution ?res = Fulfilled v"
    unfolding run new_events_def runQuery_settle_trace tr
    by (auto split: if_splits settlement.splits outcome.splits)
  with assms(1) show ?thesis
    by (simp add: run runQuery_settle_cache)
qed

text \<open>
  C1 (amended). Take a \<^verbatim>\<open>useQuery\<close> execution with caching enabled whose producer resolves
  to \<open>v\<close> while the component is attached at the settlement. Then the cache holds \<open>v\<close> under
  the key, and every later execution for that key with caching enabled, started while the
  entry is still what that execution left, publishes \<open>data = v\<close> and \<open>loading = false\<close> and
  does not call the producer.
\<close>

theorem cached_result_served_without_producer:
  assumes "useCacheOption opts" and "useCacheOption opts'"
    and "cacheKey opts' = cacheKey opts"
    and "\<not> cache_has (cacheKey opts) w"
    and "resolution (fn_call (fn opts) (currentCallerArgs opts)) = Fulfilled v"
    and "attached_at_settlement (fn_call (fn opts) (currentCallerArgs opts)) acts w"
    and "cache w' (cacheKey opts) = cache (runQuery opts acts w) (cacheKey opts)"
  shows "cache (runQuery opts acts w) (cacheKey opts) = Some v \<and>
         data (runQuery opts' acts' w') = v \<and>
         new_events w' (runQuery opts' acts' w') =
           [Publish Hook (SetData v), Publish Hook (SetLoading False)] \<and>
         invocations (new_events w' (runQuery opts' acts' w')) = 0"
proof -
  have c: "cache (runQuery opts acts w) (cacheKey opts) = Some v"
    using assms(1,4,5,6) by (simp add: runQuery_miss runQuery_settle_cache)
  with assms(3,7) have "cache w' (cacheKey opts') = Some v" by simp
  with assms(2) have "runQuery opts' acts' w' = setLoading False (setData v w')"
    by (rule runQuery_hit)
  with c show ?thesis
    by (simp add: new_events_def invocations_def hook_defs)
qed

theorem cached_result_served_without_producer_witness:
  "useCacheOption query_getUser \<and>
   \<not> cache_has (cacheKey query_getUser) (mount Map.empty) \<and>
   resolution (fn_call (fn query_getUser) (currentCallerArgs query_getUser)) =
     Fulfilled (JNum 42) \<and>
   attached_at_settlement (fn_call (fn query_getUser) (currentCallerArgs query_getUser)) []
     (mount Map.empty) \<and>
   cache (runQuery query_getUser [] (mount Map.empty)) (cacheKey query_getUser) =
     Some (JNum 42) \<and>
   data (runQuery query_getUser [Detach] (runQuery query_getUser [] (mount Map.empty))) =
     JNum 42 \<and>
   new_events (runQuery query_getUser [] (mount Map.empty))
     (runQuery query_getUser [Detach] (runQuery query_getUser [] (mount Map.empty))) =
     [Publish Hook (SetData (JNum 42)), Publish Hook (SetLoading False)] \<and>
   invocations (new_events (runQuery query_getUser [] (mount Map.empty))
     (runQuery query_getUser [Detach] (runQuery query_getUser [] (mount Map.empty)))) = 0"
  using cached_result_served_without_producer [where opts = query_getUser
      and opts' = query_getUser and v = "JNum 42" and w = "mount Map.empty" and acts = "[]"
      and w' = "runQuery query_getUser [] (mount Map.empty)" and acts' = "[Detach]"]
  by (simp add: run_eval)

text \<open>
  C1 as stated fails: with caching enabled the producer resolves to 42, but the component
  detached while the promise was pending, so nothing was written to the cache; the next
  execution for the same key finds no entry and calls the producer.
\<close>

theorem detached_first_execution_counterexample:
  "useCacheOption query_getUser \<and>
   \<not> cache_has (cacheKey query_getUser) (mount Map.empty) \<and>
   resolution (fn_call (fn query_getUser) (currentCallerArgs query_getUser)) =
     Fulfilled (JNum 42) \<and>
   cache (useQuery_effect query_getUser [Detach] (mount Map.empty))
     (cacheKey query_getUser) = None \<and>
   invocations (new_events (useQuery_effect query_getUser [Detach] (mount Map.empty))
     (useQuery_effect query_getUser []
        (useQuery_effect query_getUser [Detach] (mount Map.empty)))) = 1"
  by (simp add: run_eval)

section \<open>Write-through and the lifecycle guard\<close>

text \<open>
  C2 (amended). When the producer resolves and caching is enabled, the cache is written
  under the computed key exactly when the component is attached at the moment the producer
  settles (and, for a mutation, its \<^verbatim>\<open>onSuccess\<close> callback returns): the write stands inside
  the same \<^verbatim>\<open>isMounted\<close> guard as \<^verbatim>\<open>setData\<close>. After a detach the cache is left as it was.
\<close>

theorem write_through_only_while_attached:
  "(useCacheOption q \<and> \<not> cache_has (cacheKey q) w \<and>
    resolution (fn_call (fn q) (currentCallerArgs q)) = Fulfilled v \<longrightarrow>
      cache (runQuery q acts w) =
        (if attached_at_settlement (fn_call (fn q) (currentCallerArgs q)) acts w
         then (cache w)(cacheKey q \<mapsto> v) else cache w)) \<and>
   (useCacheOption q \<and> resolution (fn_call (fn q) (currentCallerArgs q)) = Fulfilled v \<longrightarrow>
      cache (suspense_run q acts w) =
        (if attached_at_settlement (fn_call (fn q) (currentCallerArgs q)) acts w
         then (cache w)(cacheKey q \<mapsto> v) else cache w)) \<and>
   (useCacheOption m \<and> resolution (fn_call (fn m) args) = Fulfilled v \<and>
    onSuccess_returns m v w \<longrightarrow>
      (if attached_at_settlement (fn_call (fn m) args) acts w
       then cache (mutate m args acts w) (mutate_key m args) = Some v
       else cache (mutate m args acts w) = cache w))"
proof (intro conjI impI)
  assume "useCacheOption q \<and> \<not> cache_has (cacheKey q) w \<and>
    resolution (fn_call (fn q) (currentCallerArgs q)) = Fulfilled v"
  then show "cache (runQuery q acts w) =
      (if attached_at_settlement (fn_call (fn q) (currentCallerArgs q)) acts w
       then (cache w)(cacheKey q \<mapsto> v) else cache w)"
    by (simp add: runQuery_miss runQuery_settle_cache)
next
  assume "useCacheOption q \<and> resolution (fn_call (fn q) (currentCallerArgs q)) = Fulfilled v"
  then show "cache (suspense_run q acts w) =
      (if attached_at_settlement (fn_call (fn q) (currentCallerArgs q)) acts w
       then (cache w)(cacheKey q \<mapsto> v) else cache w)"
    by (simp add: suspense_run_def suspense_settle_cache Let_def)
next
  let ?res = "fn_call (fn m) args"
  let ?w = "await_if_promise ?res acts (mutate_begin m args w)"
  assume h: "useCacheOption m \<and> resolution ?res = Fulfilled v \<and> onSuccess_returns m v w"
  then have run: "mutate m args acts w = mutate_settle m args (Fulfilled v) ?w"
    by (simp add: mutate_def Let_def)
  have "onSuccess_returns m v ?w"
    using h by (simp add: onSuccess_returns_cong [of ?w w m v])
  then show "if attached_at_settlement ?res acts w
      then cache (mutate m args acts w) (mutate_key m args) = Some v
      else cache (mutate m args acts w) = cache w"
    using h by (simp add: run mutate_settle_detached mutate_settle_cache_written)
qed

theorem write_through_only_while_attached_witness:
  "useCacheOption query_getUser \<and> \<not> cache_has (cacheKey query_getUser) (mount Map.empty) \<and>
   resolution (fn_call (fn query_getUser) (currentCallerArgs query_getUser)) =
     Fulfilled (JNum 42) \<and>
   attached_at_settlement (fn_call (fn query_getUser) (currentCallerArgs query_getUser)) []
     (mount Map.empty) \<and>
   cache (runQuery query_getUser [] (mount Map.empty)) =
     [cacheKey query_getUser \<mapsto> JNum 42] \<and>
   cache (suspense_run query_getUser [] (mount Map.empty)) =
     [cacheKey query_getUser \<mapsto> JNum 42] \<and>
   useCacheOption (mutation_invalidating getUser) \<and>
   resolution (fn_call (fn (mutation_invalidating getUser)) []) = Fulfilled (JNum 42) \<and>
   onSuccess_returns (mutation_invalidating getUser) (JNum 42) (mount Map.empty) \<and>
   cache (mutate (mutation_invalidating getUser) [] [] (mount Map.empty))
     (mutate_key (mutation_invalidating getUser) []) = Some (JNum 42) \<and>
   cache (mutate (mutation_invalidating getUser) [] [] (mount [''users'' \<mapsto> JNum 0])) =
     [''k1'' \<mapsto> JNum 42]"
  using write_through_only_while_attached [where q = query_getUser and w = "mount Map.empty"
      and v = "JNum 42" and acts = "[]" and m = "mutation_invalidating getUser" and args = "[]"]
  by (simp add: run_eval mutation_invalidating_def)

text \<open>
  C2 as stated fails: the producer resolves to 42 with caching enabled, the component
  detaches while the promise is pending, and no variant writes the cache.
\<close>

theorem detached_success_not_cached_counterexample:
  "useCacheOption query_getUser \<and>
   fn_call (fn query_getUser) (currentCallerArgs query_getUser) =
     Promise (Fulfilled (JNum 42)) \<and>
   cache (useQuery_effect query_getUser [Detach] (mount Map.empty))
     (cacheKey query_getUser) = None \<and>
   cache (useSuspenseQuery_effect query_getUser [Detach] (mount Map.empty))
     (cacheKey query_getUser) = None \<and>
   useCacheOption (mutation_k1 getUser) \<and>
   fn_call (fn (mutation_k1 getUser)) [] = Promise (Fulfilled (JNum 42)) \<and>
   cache (mutate (mutation_k1 getUser) [] [Detach] (mount Map.empty))
     (mutate_key (mutation_k1 getUser) []) = None"
  by (simp add: run_eval)

section \<open>Publications after a detach\<close>

text \<open>
  C3 at a concrete input. The component detaches while the producer's promise is pending.
  The function \<^verbatim>\<open>useAsync\<close> returned still calls \<^verbatim>\<open>setData\<close> and \<^verbatim>\<open>setLoading\<close> when the
  promise settles, and so does the wrapper around \<^verbatim>\<open>mutate\<close>; \<^verbatim>\<open>useQuery\<close>, which checks
  \<^verbatim>\<open>isMounted\<close>, publishes nothing.
\<close>

theorem useAsync_publishes_after_detach:
  "after_detach (trace (useAsync_run getUser [] [Detach] (mount Map.empty))) =
     [Publish Async (SetData (JNum 42)), Publish Async (SetLoading False)] \<and>
   after_detach (trace (mutate_run (mutation_k1 getUser) [] [Detach] (mount Map.empty))) =
     [Publish Async (SetData JUndefined), Publish Async (SetLoading False)] \<and>
   after_detach (trace (useQuery_effect query_getUser [Detach] (mount Map.empty))) = []"
  by (simp add: run_eval)

section \<open>Producer calls of mutate and useSuspenseQuery\<close>

text \<open>
  C4 (amended). \<^verbatim>\<open>mutate\<close> (alone, and behind the wrapper \<^verbatim>\<open>useMutation\<close> returns) and the
  body of \<^verbatim>\<open>useSuspenseQuery\<close> have no cache lookup: every execution calls the producer
  exactly once, whatever the cache holds and whether or not caching is enabled. The cache
  is written by them, never read.
\<close>

theorem mutate_and_suspense_always_invoke:
  "invocations (new_events w (mutate m args acts w)) = 1 \<and>
   invocations (new_events w (mutate_run m args acts w)) = 1 \<and>
   invocations (new_events w (suspense_run q acts w)) = 1"
proof -
  have "invocations (new_events w (mutate m args acts w)) = 1"
    by (simp add: new_events_def mutate_trace
        split: outcome.splits settlement.splits option.splits sum.splits)
  moreover have "invocations (new_events w (mutate_run m args acts w)) = 1"
    by (rule invocations_mutate_run)
  moreover have "invocations (new_events w (suspense_run q acts w)) = 1"
    by (simp add: new_events_def suspense_run_trace
        split: outcome.splits settlement.splits)
  ultimately show ?thesis by simp
qed

text \<open>
  C4 as stated fails: caching is enabled and the key is in the cache with value 1, and both
  variants call the producer and publish its result 2.
\<close>

theorem mutate_ignores_cache_counterexample:
  "useCacheOption (mutation_k1 addUser) \<and>
   cache_has (mutate_key (mutation_k1 addUser) []) (mount [''k1'' \<mapsto> JNum 1]) \<and>
   invocations (new_events (mount [''k1'' \<mapsto> JNum 1])
     (mutate (mutation_k1 addUser) [] [] (mount [''k1'' \<mapsto> JNum 1]))) = 1 \<and>
   data (mutate (mutation_k1 addUser) [] [] (mount [''k1'' \<mapsto> JNum 1])) = JNum 2 \<and>
   useCacheOption (query_k1 addUser) \<and>
   cache_has (cacheKey (query_k1 addUser)) (mount [''k1'' \<mapsto> JNum 1]) \<and>
   invocations (new_events (mount [''k1'' \<mapsto> JNum 1])
     (useSuspenseQuery_effect (query_k1 addUser) [] (mount [''k1'' \<mapsto> JNum 1]))) = 1 \<and>
   data (useSuspenseQuery_effect (query_k1 addUser) [] (mount [''k1'' \<mapsto> JNum 1])) = JNum 2"
  by (simp add: run_eval)

section \<open>Failed executions\<close>

lemma failed_execution_state:
  "(\<not> (useCacheOption q \<and> cache_has (cacheKey q) w) \<and>
    resolution (fn_call (fn q) (currentCallerArgs q)) = Rejected e \<longrightarrow>
      data (runQuery q acts w) = data w \<and>
      cache (runQuery q acts w) = cache w \<and>
      error (runQuery q acts w) =
        (if attached_at_settlement (fn_call (fn q) (currentCallerArgs q)) acts w
         then Some (normalize_error e) else error w)) \<and>
   (resolution (fn_call (fn q) (currentCallerArgs q)) = Rejected e \<longrightarrow>
      data (suspense_run q acts w) = data w \<and>
      cache (suspense_run q acts w) = cache w \<and>
      error (suspense_run q acts w) =
        (if attached_at_settlement (fn_call (fn q) (currentCallerArgs q)) acts w
         then Some (normalize_error e) else error w)) \<and>
   (resolution (fn_call (fn m) args) = Rejected e \<longrightarrow>
      data (mutate m args acts w) = data w \<and>
      cache (mutate m args acts w) = cache w \<and>
      error (mutate m args acts w) =
        (if attached_at_settlement (fn_call (fn m) args) acts w
         then Some (normalize_error e) else error w)) \<and>
   (resolution (fn_call f args) = Rejected e \<longrightarrow>
      a_data (useAsync_run f args acts w) = a_data w \<and>
      cache (useAsync_run f args acts w) = cache w \<and>
      a_error (useAsync_run f args acts w) = Some (normalize_error e))"
proof (intro conjI impI)
  assume h: "\<not> (useCacheOption q \<and> cache_has (cacheKey q) w) \<and>
    resolution (fn_call (fn q) (currentCallerArgs q)) = Rejected e"
  then have run: "runQuery q acts w =
      runQuery_settle q (Rejected e)
        (await_if_promise (fn_call (fn q) (currentCallerArgs q)) acts
          (invoke (fn q) (currentCallerArgs q) (setLoading True w)))"
    by (simp add: runQuery_miss)
  show "data (runQuery q acts w) = data w"
    by (simp add: run runQuery_settle_state)
  show "cache (runQuery q acts w) = cache w"
    by (simp add: run runQuery_settle_cache)
  show "error (runQuery q acts w) =
      (if attached_at_settlement (fn_call (fn q) (currentCallerArgs q)) acts w
       then Some (normalize_error e) else error w)"
    by (simp add: run runQuery_settle_state)
next
  assume h: "resolution (fn_call (fn q) (currentCallerArgs q)) = Rejected e"
  show "data (suspense_run q acts w) = data w"
    by (simp add: suspense_run_def Let_def h suspense_settle_state)
  show "cache (suspense_run q acts w) = cache w"
    by (simp add: suspense_run_def Let_def h suspense_settle_cache)
  show "error (suspense_run q acts w) =
      (if attached_at_settlement (fn_call (fn q) (currentCallerArgs q)) acts w
       then Some (normalize_error e) else error w)"
    by (simp add: suspense_run_def Let_def h suspense_settle_state)
next
  assume h: "resolution (fn_call (fn m) args) = Rejected e"
  show "data (mutate m args acts w) = data w"
    by (simp add: mutate_def Let_def h mutate_settle_rejected)
  show "cache (mutate m args acts w) = cache w"
    by (simp add: mutate_def Let_def h mutate_settle_rejected)
  show "error (mutate m args acts w) =
      (if attached_at_settlement (fn_call (fn m) args) acts w
       then Some (normalize_error e) else error w)"
    by (simp add: mutate_def Let_def h mutate_settle_rejected)
next
  assume h: "resolution (fn_call f args) = Rejected e"
  show "a_data (useAsync_run f args acts w) = a_data w"
    by (simp add: useAsync_run_def Let_def h useAsync_settle_state)
  show "cache (useAsync_run f args acts w) = cache w"
    by (simp add: useAsync_run_def Let_def h useAsync_settle_state)
  show "a_error (useAsync_run f args acts w) = Some (normalize_error e)"
    by (simp add: useAsync_run_def Let_def h useAsync_settle_state)
qed

lemma normalize_error_cases:
  "normalize_error e =
     (case e of
        ErrorValue err \<Rightarrow> err
      | OtherValue x \<Rightarrow> JsError ''Error'' ''An unexpected error occured :('')"
  by (cases e) (simp_all add: new_Error_def)

text \<open>
  C5. When the producer throws or rejects with \<open>e\<close>, in \<^verbatim>\<open>useQuery\<close> (past the cache
  lookup), \<^verbatim>\<open>useSuspenseQuery\<close>, \<^verbatim>\<open>mutate\<close> and \<^verbatim>\<open>useAsync\<close>: the data is what it was, the
  cache is what it was, and the error field holds the normalised error, which is \<open>e\<close>
  itself when \<open>e\<close> is an \<^verbatim>\<open>Error\<close> instance and the generic
  \<^verbatim>\<open>new Error("An unexpected error occured :(")\<close> when it is anything else. In the three
  hooks that carry the lifecycle guard the error goes through it, so the field holds the
  new error when the component is attached at the settlement and is left as it was
  otherwise.
\<close>

theorem failed_execution_publishes_error_only:
  "(\<not> (useCacheOption q \<and> cache_has (cacheKey q) w) \<and>
    resolution (fn_call (fn q) (currentCallerArgs q)) = Rejected e \<longrightarrow>
      data (runQuery q acts w) = data w \<and>
      cache (runQuery q acts w) = cache w \<and>
      error (runQuery q acts w) =
        (if attached_at_settlement (fn_call (fn q) (currentCallerArgs q)) acts w
         then Some (case e of
                      ErrorValue err \<Rightarrow> err
                    | OtherValue x \<Rightarrow> JsError ''Error'' ''An unexpected error occured :('')
         else error w)) \<and>
   (resolution (fn_call (fn q) (currentCallerArgs q)) = Rejected e \<longrightarrow>
      data (suspense_run q acts w) = data w \<and>
      cache (suspense_run q acts w) = cache w \<and>
      error (suspense_run q acts w) =
        (if attached_at_settlement (fn_call (fn q) (currentCallerArgs q)) acts w
         then Some (case e of
                      ErrorValue err \<Rightarrow> err
                    | OtherValue x \<Rightarrow> JsError ''Error'' ''An unexpected error occured :('')
         else error w)) \<and>
   (resolution (fn_call (fn m) args) = Rejected e \<longrightarrow>
      data (mutate m args acts w) = data w \<and>
      cache (mutate m args acts w) = cache w \<and>
      error (mutate m args acts w) =
        (if attached_at_settlement (fn_call (fn m) args) acts w
         then Some (case e of
                      ErrorValue err \<Rightarrow> err
                    | OtherValue x \<Rightarrow> JsError ''Error'' ''An unexpected error occured :('')
         else error w)) \<and>
   (resolution (fn_call f args) = Rejected e \<longrightarrow>
      a_data (useAsync_run f args acts w) = a_data w \<and>
      cache (useAsync_run f args acts w) = cache w \<and>
      a_error (useAsync_run f args acts w) =
        Some (case e of
                ErrorValue err \<Rightarrow> err
              | OtherValue x \<Rightarrow> JsError ''Error'' ''An unexpected error occured :(''))"
  using failed_execution_state [where q = q and w = w and e = e and acts = acts and m = m
      and args = args and f = f]
  unfolding normalize_error_cases [of e]
  by blast

theorem failed_execution_publishes_error_only_witness:
  "\<not> (useCacheOption (query_k1 rejecting) \<and>
      cache_has (cacheKey (query_k1 rejecting)) (mount [''other'' \<mapsto> JNum 1])) \<and>
   resolution (fn_call (fn (query_k1 rejecting)) (currentCallerArgs (query_k1 rejecting))) =
     Rejected (ErrorValue (JsError ''TypeError'' ''bad'')) \<and>
   attached_at_settlement
     (fn_call (fn (query_k1 rejecting)) (currentCallerArgs (query_k1 rejecting))) []
     (mount [''other'' \<mapsto> JNum 1]) \<and>
   data (runQuery (query_k1 rejecting) [] (mount [''other'' \<mapsto> JNum 1])) = JUndefined \<and>
   cache (runQuery (query_k1 rejecting) [] (mount [''other'' \<mapsto> JNum 1])) =
     [''other'' \<mapsto> JNum 1] \<and>
   error (runQuery (query_k1 rejecting) [] (mount [''other'' \<mapsto> JNum 1])) =
     Some (JsError ''TypeError'' ''bad'') \<and>
   error (suspense_run (query_k1 rejecting) [] (mount [''other'' \<mapsto> JNum 1])) =
     Some (JsError ''TypeError'' ''bad'') \<and>
   resolution (fn_call (fn (mutation_k1 rejecting)) [JNum 7]) =
     Rejected (ErrorValue (JsError ''TypeError'' ''bad'')) \<and>
   error (mutate (mutation_k1 rejecting) [JNum 7] [] (mount [''other'' \<mapsto> JNum 1])) =
     Some (JsError ''TypeError'' ''bad'') \<and>
   cache (mutate (mutation_k1 rejecting) [JNum 7] [] (mount [''other'' \<mapsto> JNum 1])) =
     [''other'' \<mapsto> JNum 1] \<and>
   resolution (fn_call rejecting [JNum 7]) =
     Rejected (ErrorValue (JsError ''TypeError'' ''bad'')) \<and>
   a_error (useAsync_run rejecting [JNum 7] [] (mount [''other'' \<mapsto> JNum 1])) =
     Some (JsError ''TypeError'' ''bad'') \<and>
   \<not> attached_at_settlement
     (fn_call (fn (query_k1 rejecting)) (currentCallerArgs (query_k1 rejecting))) [Detach]
     (mount [''other'' \<mapsto> JNum 1]) \<and>
   error (runQuery (query_k1 rejecting) [Detach] (mount [''other'' \<mapsto> JNum 1])) = None \<and>
   a_error (useAsync_run rejecting [JNum 7] [Detach] (mount [''other'' \<mapsto> JNum 1])) =
     Some (JsError ''TypeError'' ''bad'') \<and>
   error (runQuery (query_k1 failing) [] (mount [''other'' \<mapsto> JNum 1])) =
     Some (JsError ''Error'' ''An unexpected error occured :('')"
  using failed_execution_publishes_error_only [where q = "query_k1 rejecting"
      and w = "mount [''other'' \<mapsto> JNum 1]" and e = "ErrorValue (JsError ''TypeError'' ''bad'')"
      and acts = "[]" and m = "mutation_k1 rejecting" and args = "[JNum 7]" and f = rejecting]
  by (simp add: run_eval)

text \<open>
  C6. In \<^verbatim>\<open>useQuery\<close>, when the producer throws or rejects with \<open>e\<close> and the component is
  attached: an \<^verbatim>\<open>Error\<close> instance is published as it is; any other value is replaced by
  the generic \<^verbatim>\<open>Error\<close>, which is not the raw value; \<^verbatim>\<open>data\<close> stays what it was
  (\<^verbatim>\<open>undefined\<close> in a fresh component) and \<^verbatim>\<open>loading\<close> ends \<^verbatim>\<open>false\<close>.
\<close>

theorem thrown_value_normalized:
  assumes "\<not> (useCacheOption q \<and> cache_has (cacheKey q) w)"
    and "resolution (fn_call (fn q) (currentCallerArgs q)) = Rejected e"
    and "attached_at_settlement (fn_call (fn q) (currentCallerArgs q)) acts w"
  shows "error (runQuery q acts w) = Some (normalize_error e) \<and>
         (instanceof_Error e \<longrightarrow> ErrorValue (normalize_error e) = e) \<and>
         (\<not> instanceof_Error e \<longrightarrow>
            normalize_error e = new_Error ''An unexpected error occured :('' \<and>
            ErrorValue (normalize_error e) \<noteq> e) \<and>
         data (runQuery q acts w) = data w \<and>
         loading (runQuery q acts w) = False"
proof -
  have run: "runQuery q acts w =
      runQuery_settle q (Rejected e)
        (await_if_promise (fn_call (fn q) (currentCallerArgs q)) acts
          (invoke (fn q) (currentCallerArgs q) (setLoading True w)))"
    using assms(1,2) by (simp add: runQuery_miss)
  have "error (runQuery q acts w) = Some (normalize_error e)"
    using assms(3) by (simp add: run runQuery_settle_state)
  moreover have "data (runQuery q acts w) = data w"
    by (simp add: run runQuery_settle_state)
  moreover have "loading (runQuery q acts w) = False"
    using assms(3) by (simp add: run runQuery_settle_state)
  moreover have "instanceof_Error e \<longrightarrow> ErrorValue (normalize_error e) = e"
    by (cases e) simp_all
  moreover have "\<not> instanceof_Error e \<longrightarrow>
      normalize_error e = new_Error ''An unexpected error occured :('' \<and>
      ErrorValue (normalize_error e) \<noteq> e"
    by (cases e) simp_all
  ultimately show ?thesis by blast
qed

theorem thrown_value_normalized_witness:
  "\<not> (useCacheOption (query_k1 failing) \<and>
      cache_has (cacheKey (query_k1 failing)) (mount Map.empty)) \<and>
   fn_call (fn (query_k1 failing)) (currentCallerArgs (query_k1 failing)) =
     Threw (OtherValue (JStr ''boom'')) \<and>
   attached_at_settlement
     (fn_call (fn (query_k1 failing)) (currentCallerArgs (query_k1 failing))) []
     (mount Map.empty) \<and>
   \<not> instanceof_Error (OtherValue (JStr ''boom'')) \<and>
   error (useQuery_effect (query_k1 failing) [] (mount Map.empty)) =
     Some (JsError ''Error'' ''An unexpected error occured :('') \<and>
   data (useQuery_effect (query_k1 failing) [] (mount Map.empty)) = JUndefined \<and>
   loading (useQuery_effect (query_k1 failing) [] (mount Map.empty)) = False"
  using thrown_value_normalized [of "query_k1 failing" "mount Map.empty"
      "OtherValue (JStr ''boom'')" "[]"]
  by (simp add: run_eval)

section \<open>The error of an earlier run\<close>

text \<open>
  C7 at a concrete input. The first execution of a \<^verbatim>\<open>useQuery\<close> fails; the next one, with a
  producer that resolves to 42, publishes the data and \<open>loading = false\<close>, and the error of
  the first run is still there: \<^verbatim>\<open>runQuery\<close> never calls \<^verbatim>\<open>setError(undefined)\<close>.
\<close>

theorem useQuery_error_survives_success:
  "error (useQuery_effect (query_k1 failing) [] (mount Map.empty)) =
     Some (new_Error ''An unexpected error occured :('') \<and>
   data (refetch (query_k1 getUser) []
     (useQuery_effect (query_k1 failing) [] (mount Map.empty))) = JNum 42 \<and>
   loading (refetch (query_k1 getUser) []
     (useQuery_effect (query_k1 failing) [] (mount Map.empty))) = False \<and>
   error (refetch (query_k1 getUser) []
     (useQuery_effect (query_k1 failing) [] (mount Map.empty))) =
     Some (new_Error ''An unexpected error occured :('')"
  by (simp add: run_eval)

section \<open>Cache keys of deep-equal argument lists\<close>

text \<open>
  C8 (amended). For every producer and for argument lists that are deep-equal and whose
  corresponding objects list their properties in the same order, \<^verbatim>\<open>generateCacheKey\<close>
  gives the same key, whichever objects the lists hold; and so do the key of a query and
  the key of a \<^verbatim>\<open>mutate\<close> call.
\<close>

theorem generateCacheKey_same_order:
  assumes "deep_equal_list a1 a2" and "same_order_list a1 a2"
    and "well_formed_list a1" and "well_formed_list a2"
  shows "generateCacheKey f (Some a1) = generateCacheKey f (Some a2) \<and>
         cacheKey (opts\<lparr>callerArgs := Some a1\<rparr>) = cacheKey (opts\<lparr>callerArgs := Some a2\<rparr>) \<and>
         mutate_key opts a1 = mutate_key opts a2"
proof -
  have "stringify_array a1 = stringify_array a2"
    using assms by (rule stringify_array_deep_equal)
  then have "generateCacheKey g (Some a1) = generateCacheKey g (Some a2)" for g
    by (simp add: generateCacheKey_def)
  then show ?thesis
    by (simp add: cacheKey_def mutate_key_def currentCallerArgs_def split: option.splits)
qed

theorem generateCacheKey_same_order_witness:
  "deep_equal_list args_ab args_ab_again \<and> same_order_list args_ab args_ab_again \<and>
   well_formed_list args_ab \<and> well_formed_list args_ab_again \<and>
   args_ab \<noteq> args_ab_again \<and>
   generateCacheKey getUser (Some args_ab) = generateCacheKey getUser (Some args_ab_again) \<and>
   generateCacheKey getUser (Some args_ab) = ''getUser-[{\"a\":1,\"b\":[2,\"x\"]}]'' \<and>
   cacheKey (query_getUser\<lparr>callerArgs := Some args_ab_again\<rparr>) =
     ''getUser-[{\"a\":1,\"b\":[2,\"x\"]}]''"
  using generateCacheKey_same_order [of args_ab args_ab_again getUser query_getUser]
  by (simp add: key_eval cacheKey_def currentCallerArgs_def query_getUser_def)

text \<open>
  C8 as stated fails: \<^verbatim>\<open>[{a: 1, b: [2, "x"]}]\<close> and \<^verbatim>\<open>[{b: [2, "x"], a: 1}]\<close> are
  deep-equal, and \<^verbatim>\<open>JSON.stringify\<close> writes the properties in the order each object has
  them.
\<close>

theorem generateCacheKey_property_order_counterexample:
  "deep_equal_list args_ab args_ba \<and>
   well_formed_list args_ab \<and> well_formed_list args_ba \<and>
   generateCacheKey getUser (Some args_ab) = ''getUser-[{\"a\":1,\"b\":[2,\"x\"]}]'' \<and>
   generateCacheKey getUser (Some args_ba) = ''getUser-[{\"b\":[2,\"x\"],\"a\":1}]'' \<and>
   generateCacheKey getUser (Some args_ab) \<noteq> generateCacheKey getUser (Some args_ba)"
  by (simp add: key_eval)

section \<open>Order of publications\<close>

text \<open>
  C9. In one execution of \<^verbatim>\<open>runQuery\<close> (past the cache lookup), of \<^verbatim>\<open>mutate\<close> and of the
  function \<^verbatim>\<open>useAsync\<close> returns, whatever the producer does and whatever happens to the
  component meanwhile: what precedes the producer call is the publication of
  \<open>loading = true\<close> (for \<^verbatim>\<open>mutate\<close>, if the component is attached; for \<^verbatim>\<open>useAsync\<close>, after
  the error was cleared); \<open>loading = false\<close> is published nowhere but at the very end; and
  when the settlement is published at all (always in \<^verbatim>\<open>useAsync\<close>, when attached in the
  others), \<open>loading = false\<close> is the last event and the data or the error comes before it.
\<close>

theorem loading_false_published_last:
  "(\<not> (useCacheOption q \<and> cache_has (cacheKey q) w) \<longrightarrow>
      takeWhile (\<lambda>e. \<not> is_Invoke e) (new_events w (runQuery q acts w)) =
        [Publish Hook (SetLoading True)] \<and>
      Publish Hook (SetLoading False) \<notin> set (butlast (new_events w (runQuery q acts w))) \<and>
      (attached_at_settlement (fn_call (fn q) (currentCallerArgs q)) acts w \<longrightarrow>
         last (new_events w (runQuery q acts w)) = Publish Hook (SetLoading False) \<and>
         (case resolution (fn_call (fn q) (currentCallerArgs q)) of
            Fulfilled v \<Rightarrow> Publish Hook (SetData v)
          | Rejected e \<Rightarrow> Publish Hook (SetError (Some (normalize_error e))))
           \<in> set (butlast (new_events w (runQuery q acts w))))) \<and>
   takeWhile (\<lambda>e. \<not> is_Invoke e) (new_events w (mutate m args acts w)) =
     (if isMounted w then [Publish Hook (SetLoading True)] else []) \<and>
   Publish Hook (SetLoading False) \<notin> set (butlast (new_events w (mutate m args acts w))) \<and>
   (attached_at_settlement (fn_call (fn m) args) acts w \<longrightarrow>
      last (new_events w (mutate m args acts w)) = Publish Hook (SetLoading False) \<and>
      (case resolution (fn_call (fn m) args) of
         Fulfilled v \<Rightarrow> Publish Hook (SetData v)
       | Rejected e \<Rightarrow> Publish Hook (SetError (Some (normalize_error e))))
        \<in> set (butlast (new_events w (mutate m args acts w)))) \<and>
   takeWhile (\<lambda>e. \<not> is_Invoke e) (new_events w (useAsync_run f args acts w)) =
     [Publish Async (SetError None), Publish Async (SetLoading True)] \<and>
   Publish Async (SetLoading False) \<notin>
     set (butlast (new_events w (useAsync_run f args acts w))) \<and>
   last (new_events w (useAsync_run f args acts w)) = Publish Async (SetLoading False) \<and>
   (case resolution (fn_call f args) of
      Fulfilled v \<Rightarrow> Publish Async (SetData v)
    | Rejected e \<Rightarrow> Publish Async (SetError (Some (normalize_error e))))
     \<in> set (butlast (new_events w (useAsync_run f args acts w)))"
  using runQuery_order [where q = q and w = w and acts = acts]
    mutate_order [where m = m and w = w and acts = acts and args = args]
    useAsync_order [where f = f and w = w and acts = acts and args = args]
  by blast

theorem loading_false_published_last_witness:
  "\<not> (useCacheOption query_getUser \<and> cache_has (cacheKey query_getUser) (mount Map.empty)) \<and>
   attached_at_settlement (fn_call (fn query_getUser) (currentCallerArgs query_getUser)) []
     (mount Map.empty) \<and>
   new_events (mount Map.empty) (runQuery query_getUser [] (mount Map.empty)) =
     [Publish Hook (SetLoading True), Invoke 1 [], Publish Hook (SetData (JNum 42)),
      CacheSet ''getUser-[]'' (JNum 42), Publish Hook (SetLoading False)] \<and>
   takeWhile (\<lambda>e. \<not> is_Invoke e)
     (new_events (mount Map.empty) (runQuery query_getUser [] (mount Map.empty))) =
     [Publish Hook (SetLoading True)] \<and>
   last (new_events (mount Map.empty) (runQuery query_getUser [] (mount Map.empty))) =
     Publish Hook (SetLoading False) \<and>
   Publish Hook (SetData (JNum 42)) \<in>
     set (butlast (new_events (mount Map.empty) (runQuery query_getUser [] (mount Map.empty)))) \<and>
   attached_at_settlement (fn_call (fn (mutation_k1 failing)) []) [] (mount Map.empty) \<and>
   new_events (mount Map.empty) (mutate (mutation_k1 failing) [] [] (mount Map.empty)) =
     [Publish Hook (SetLoading True), Invoke 2 [],
      Publish Hook (SetError (Some (JsError ''Error'' ''An unexpected error occured :(''))),
      Publish Hook (SetLoading False)] \<and>
   new_events (mount Map.empty) (useAsync_run getUser [] [] (mount Map.empty)) =
     [Publish Async (SetError None), Publish Async (SetLoading True), Invoke 1 [],
      Publish Async (SetData (JNum 42)), Publish Async (SetLoading False)]"
  using loading_false_published_last [where q = query_getUser and w = "mount Map.empty"
      and acts = "[]" and m = "mutation_k1 failing" and args = "[]" and f = getUser]
  by (simp add: run_eval)

section \<open>What the callable of useAsync returns\<close>

text \<open>
  C10 (amended). The callable returns the \<^verbatim>\<open>data\<close> its closure captured, whatever the
  invocation it starts will give: the \<^verbatim>\<open>data\<close> of the render that created the callable,
  which is the first render or the last one in which the wrapped function was another
  object. So the callable of the next render returns what the previous callable returned
  when the wrapped function is the same object, and the \<^verbatim>\<open>data\<close> of that render when it is
  another. The result of a run reaches \<^verbatim>\<open>data\<close> only through the later publication. The
  state behind \<^verbatim>\<open>mutate\<close> is only ever set to \<^verbatim>\<open>undefined\<close>, which is what a \<^verbatim>\<open>mutate\<close>
  created after a run returns.
\<close>

theorem newFn_returns_captured_data:
  "fst (newFn (useAsync previous f w) args acts w) =
     (case previous of
        None \<Rightarrow> a_data w
      | Some c \<Rightarrow> if captured_ref c = fn_ref f then captured_data c else a_data w) \<and>
   fst (newFn (useAsync (Some (useAsync previous f w)) f' w') args' acts' w') =
     (if fn_ref f' = fn_ref f then fst (newFn (useAsync previous f w) args acts w)
      else a_data w') \<and>
   a_data (snd (newFn c args acts w)) =
     (case resolution (fn_call (captured_fn c) args) of
        Fulfilled v \<Rightarrow> v
      | Rejected e \<Rightarrow> a_data w) \<and>
   a_data (snd (mutateFn cm args acts w)) = JUndefined \<and>
   fst (mutateFn (useMutation None m r (snd (mutateFn cm args acts w))) args' acts' w') =
     JUndefined"
  by (simp add: newFn_def mutateFn_def useAsync_def useMutation_def captured_data_useCallback
      a_data_useAsync_run a_data_mutate_run)

text \<open>
  C10 as stated fails for a wrapped function that is the same object on every render: the
  first run has completed and published 42, and the callable of the next render still
  returns \<^verbatim>\<open>undefined\<close>.
\<close>

theorem stable_function_returns_first_data_counterexample:
  "a_data (snd (newFn (useAsync None getUser (mount Map.empty)) [] [] (mount Map.empty))) =
     JNum 42 \<and>
   fst (newFn
     (useAsync (Some (useAsync None getUser (mount Map.empty))) getUser
        (snd (newFn (useAsync None getUser (mount Map.empty)) [] [] (mount Map.empty))))
     [] []
     (snd (newFn (useAsync None getUser (mount Map.empty)) [] [] (mount Map.empty)))) =
     JUndefined"
  by (simp add: newFn_def useAsync_def useCallback_def run_eval)

end
